theory Spec2Isabelle
  imports Main
begin

section \<open>Data model of DatabaseSettingsWidgetDatabaseKey\<close>

text \<open>
  The embedding follows \<^verbatim>\<open>src/gui/dbsettings/DatabaseSettingsWidgetDatabaseKey.cpp\<close>.
  The widget object, the database it points to, the factor-key objects and the calls
  made to collaborators are one explicit state; each member function is a function on
  that state.
\<close>

subsection \<open>Factor keys and composite keys\<close>

text \<open>
  The type identifiers \<^verbatim>\<open>PasswordKey::UUID\<close>, \<^verbatim>\<open>FileKey::UUID\<close> and
  \<^verbatim>\<open>ChallengeResponseKey::UUID\<close> are class constants declared in \<^verbatim>\<open>keys/*.h\<close>;
  the code only compares against them, so they are three distinct constructors and every
  other identifier is \<open>Other_UUID\<close>.
\<close>

datatype key_uuid = PasswordKey_UUID | FileKey_UUID | ChallengeResponseKey_UUID | Other_UUID nat

text \<open>
  A \<^verbatim>\<open>QSharedPointer<Key>\<close> is a reference: an address into a store of key objects.
  Two pointers are the same object exactly when the addresses are equal. A null pointer is
  \<open>None\<close> of \<open>key_ref option\<close>.
\<close>

type_synonym key_ref = nat

record key_obj =
  uuid :: key_uuid
  rawKey :: "nat list"

type_synonym key_store = "key_ref \<Rightarrow> key_obj"

record CompositeKey =
  keys :: "key_ref list"
  challengeResponseKeys :: "key_ref list"

definition CompositeKey_create :: CompositeKey where
  "CompositeKey_create = \<lparr>keys = [], challengeResponseKeys = []\<rparr>"

text \<open>
  Modelled from the spec: \<^verbatim>\<open>CompositeKey::addKey\<close> and
  \<^verbatim>\<open>CompositeKey::addChallengeResponseKey\<close> (keys/CompositeKey.cpp is not part of the
  sources). Section 4.2: "attach a previously-derived factor by reference (no
  re-derivation)"; the factor collections are ordered, so the reference is appended.
\<close>

definition addKey :: "CompositeKey \<Rightarrow> key_ref \<Rightarrow> CompositeKey" where
  "addKey k r = k\<lparr>keys := keys k @ [r]\<rparr>"

definition addChallengeResponseKey :: "CompositeKey \<Rightarrow> key_ref \<Rightarrow> CompositeKey" where
  "addChallengeResponseKey k r = k\<lparr>challengeResponseKeys := challengeResponseKeys k @ [r]\<rparr>"

subsection \<open>Key component widgets\<close>

datatype Page = AddNew | Edit | LeaveOrRemove

text \<open>
  \<^verbatim>\<open>KeyComponentWidget\<close> and its subclasses are declared in \<^verbatim>\<open>gui/databasekey/\<close>,
  outside the sources. What \<^verbatim>\<open>saveSettings\<close> reads from a widget is a field here:
  the visible page, the added flag, and the two virtual operations \<^verbatim>\<open>validate\<close>
  (takes the error string, returns success and the string it leaves) and
  \<^verbatim>\<open>addToCompositeKey\<close> (takes the composite key under construction and the key store,
  returns success, the composite key and the store it leaves), both arbitrary functions.
\<close>

record KeyComponentWidget =
  visiblePage :: Page
  componentAdded :: bool
  validate :: "string \<Rightarrow> bool \<times> string"
  widget_addToCompositeKey :: "CompositeKey \<Rightarrow> key_store \<Rightarrow> bool \<times> CompositeKey \<times> key_store"

text \<open>
  \<^verbatim>\<open>PasswordEditWidget\<close> adds \<^verbatim>\<open>isEmpty()\<close>, \<^verbatim>\<open>getPasswordQuality()\<close> (the ordinal of
  the \<^verbatim>\<open>PasswordHealth::Quality\<close> value) and the password-visible switch.
\<close>

record PasswordEditWidget = KeyComponentWidget +
  isEmpty :: bool
  getPasswordQuality :: int
  passwordVisible :: bool

text \<open>
  Modelled from the spec: \<^verbatim>\<open>KeyComponentWidget::setComponentAdded\<close> and
  \<^verbatim>\<open>KeyComponentWidget::changeVisiblePage\<close> (not part of the sources). Section 4.1:
  \<^verbatim>\<open>setComponentAdded(bool)\<close> "marks whether this factor exists in the currently-loaded
  key"; \<^verbatim>\<open>changeVisiblePage\<close> selects the visible page.
\<close>

definition setComponentAdded ::
  "bool \<Rightarrow> 'a KeyComponentWidget_scheme \<Rightarrow> 'a KeyComponentWidget_scheme" where
  "setComponentAdded b w = w\<lparr>componentAdded := b\<rparr>"

definition changeVisiblePage ::
  "Page \<Rightarrow> 'a KeyComponentWidget_scheme \<Rightarrow> 'a KeyComponentWidget_scheme" where
  "changeVisiblePage p w = w\<lparr>visiblePage := p\<rparr>"

subsection \<open>Database, dialogs and the log of collaborator calls\<close>

record Database =
  key :: "CompositeKey option"
  publicUuid :: nat
  modified :: bool

datatype Button = Ok | Cancel | ContinueWithWeakPass | ContinueWithoutPassword | NoButton

text \<open>
  Every call that leaves the widget is logged in order: the \<^verbatim>\<open>QMessageBox\<close> built for the
  missing password (title, buttons, default button), \<^verbatim>\<open>MessageBox::critical\<close> and
  \<^verbatim>\<open>MessageBox::warning\<close> (title, text, buttons, default button; \<open>NoButton\<close> where the
  call passes none), \<^verbatim>\<open>Database::setKey\<close> with its four arguments,
  \<^verbatim>\<open>QuickUnlockInterface::reset\<close>, the signal \<^verbatim>\<open>editFinished\<close> and
  \<^verbatim>\<open>Database::markAsModified\<close>. \<open>Emit_editFinished\<close> records that the \<^verbatim>\<open>emit\<close>
  statement ran; the delivery of the signal to its receivers is Qt's.
\<close>

datatype event =
    QMessageBox_exec string "Button list" Button
  | MessageBox_critical string string "Button list" Button
  | MessageBox_warning string string "Button list" Button
  | Db_setKey CompositeKey bool bool bool
  | QuickUnlock_reset nat
  | Emit_editFinished bool
  | Db_markAsModified

text \<open>
  The widget object. \<open>m_yubiKeyEditWidget\<close> is \<open>None\<close> in a build without
  \<^verbatim>\<open>WITH_XC_YUBIKEY\<close>, where the member and every statement on it are compiled out.
  \<open>m_db\<close> is the database stored by \<^verbatim>\<open>loadSettings\<close>; \<open>store\<close> holds the factor-key
  objects; \<open>trace\<close> is the log.
\<close>

record widget =
  m_isDirty :: bool
  m_passwordEditWidget :: PasswordEditWidget
  m_keyFileEditWidget :: KeyComponentWidget
  m_yubiKeyEditWidget :: "KeyComponentWidget option"
  m_additionalKeyOptionsToggle_visible :: bool
  m_additionalKeyOptions_visible :: bool
  signalsBlocked :: bool
  m_db :: Database
  store :: key_store
  trace :: "event list"

text \<open>
  What one run of \<^verbatim>\<open>saveSettings\<close> reads from outside: the configured minimum quality
  (\<^verbatim>\<open>config()->get(...).toInt()\<close>), the button clicked in the missing-password box, the
  button returned by the weak-password warning, and the ordinal of
  \<^verbatim>\<open>PasswordHealth::Quality::Good\<close> (the enumeration is declared in core/PasswordHealth.h,
  outside the sources, so its ordinal is a parameter).
\<close>

record SaveEnv =
  Security_DatabasePasswordMinimumQuality :: int
  Quality_Good :: int
  noPassword_clickedButton :: Button
  weakPassword_dialogResult :: Button

text \<open>
  A member function either returns or stops the program: dereferencing the null
  \<^verbatim>\<open>m_db->key()\<close> (undefined behaviour in C++, a crash in practice), or a failed
  \<^verbatim>\<open>Q_ASSERT\<close>. The elements of the two key lists of a composite key are taken to be
  non-null pointers.
\<close>

datatype 'a outcome = NullDeref | AssertFailed | Returned 'a

section \<open>The member functions\<close>

definition logCall :: "event \<Rightarrow> widget \<Rightarrow> widget" where
  "logCall e s = s\<lparr>trace := trace s @ [e]\<rparr>"

subsection \<open>setAdditionalKeyOptionsVisible, showAdditionalKeyOptions, markDirty\<close>

definition setAdditionalKeyOptionsVisible :: "bool \<Rightarrow> widget \<Rightarrow> widget" where
  "setAdditionalKeyOptionsVisible show s =
     s\<lparr>m_additionalKeyOptionsToggle_visible := \<not> show, m_additionalKeyOptions_visible := show\<rparr>"

definition showAdditionalKeyOptions :: "widget \<Rightarrow> widget" where
  "showAdditionalKeyOptions s = setAdditionalKeyOptionsVisible True s"

definition markDirty :: "widget \<Rightarrow> widget" where
  "markDirty s = s\<lparr>m_isDirty := True\<rparr>"

subsection \<open>initialize, uninitialize, discard\<close>

text \<open>
  \<^verbatim>\<open>initialize\<close> blocks the widget's signals, clears the added flag of each component and
  restores the previous blocking state.
\<close>

definition initialize :: "widget \<Rightarrow> widget" where
  "initialize s =
     (let blocked = signalsBlocked s;
          s1 = s\<lparr>signalsBlocked := True\<rparr>;
          s2 = s1\<lparr>m_passwordEditWidget := setComponentAdded False (m_passwordEditWidget s1)\<rparr>;
          s3 = s2\<lparr>m_keyFileEditWidget := setComponentAdded False (m_keyFileEditWidget s2)\<rparr>;
          s4 = s3\<lparr>m_yubiKeyEditWidget := map_option (setComponentAdded False) (m_yubiKeyEditWidget s3)\<rparr>
      in s4\<lparr>signalsBlocked := blocked\<rparr>)"

definition uninitialize :: "widget \<Rightarrow> widget" where
  "uninitialize s = s"

definition discard :: "widget \<Rightarrow> widget" where
  "discard s = logCall (Emit_editFinished False) (initialize s)"

subsection \<open>loadSettings\<close>

text \<open>
  Modelled from the spec: \<^verbatim>\<open>DatabaseSettingsWidget::loadSettings\<close> of the base class (not
  part of the sources) stores the database in \<open>m_db\<close>.
\<close>

definition base_loadSettings :: "Database \<Rightarrow> widget \<Rightarrow> widget" where
  "base_loadSettings db s = s\<lparr>m_db := db\<rparr>"

fun loadKeys :: "key_store \<Rightarrow> key_ref list \<Rightarrow> widget \<times> bool \<Rightarrow> widget \<times> bool" where
  "loadKeys h [] (s, hasAdditionalKeys) = (s, hasAdditionalKeys)"
| "loadKeys h (k # ks) (s, hasAdditionalKeys) =
     (if uuid (h k) = PasswordKey_UUID then
        loadKeys h ks
          (s\<lparr>m_passwordEditWidget := setComponentAdded True (m_passwordEditWidget s)\<rparr>,
           hasAdditionalKeys)
      else if uuid (h k) = FileKey_UUID then
        loadKeys h ks
          (s\<lparr>m_keyFileEditWidget := setComponentAdded True (m_keyFileEditWidget s)\<rparr>, True)
      else loadKeys h ks (s, hasAdditionalKeys))"

fun loadChallengeResponseKeys ::
  "key_store \<Rightarrow> key_ref list \<Rightarrow> widget \<times> bool \<Rightarrow> widget \<times> bool" where
  "loadChallengeResponseKeys h [] (s, hasAdditionalKeys) = (s, hasAdditionalKeys)"
| "loadChallengeResponseKeys h (k # ks) (s, hasAdditionalKeys) =
     (if uuid (h k) = ChallengeResponseKey_UUID then
        loadChallengeResponseKeys h ks
          (s\<lparr>m_yubiKeyEditWidget := map_option (setComponentAdded True) (m_yubiKeyEditWidget s)\<rparr>,
           True)
      else loadChallengeResponseKeys h ks (s, hasAdditionalKeys))"

definition loadSettings :: "Database \<Rightarrow> widget \<Rightarrow> widget" where
  "loadSettings db s =
     (let s1 = base_loadSettings db s in
      case key (m_db s1) of
        None \<Rightarrow>
          s1\<lparr>m_passwordEditWidget :=
               (changeVisiblePage Edit (m_passwordEditWidget s1))\<lparr>passwordVisible := True\<rparr>\<rparr>
      | Some k \<Rightarrow>
          if keys k = [] then
            s1\<lparr>m_passwordEditWidget :=
                 (changeVisiblePage Edit (m_passwordEditWidget s1))\<lparr>passwordVisible := True\<rparr>\<rparr>
          else
            (let (s2, has2) = loadKeys (store s1) (keys k) (s1, False);
                 (s3, has3) =
                   (if m_yubiKeyEditWidget s2 = None then (s2, has2)
                    else loadChallengeResponseKeys (store s2) (challengeResponseKeys k) (s2, has2))
             in setAdditionalKeyOptionsVisible has3 s3))"

subsection \<open>addToCompositeKey\<close>

text \<open>
  The two overloads (lines 262-277 and 279-294) differ in the collection the old factor
  is carried into. In the \<open>Edit\<close> branch \<^verbatim>\<open>||\<close> short-circuits: the widget's
  \<^verbatim>\<open>addToCompositeKey\<close> runs only when \<^verbatim>\<open>validate\<close> succeeded. In the
  \<open>LeaveOrRemove\<close> branch \<^verbatim>\<open>Q_ASSERT(oldKey)\<close> stops the program on a null old factor,
  as in a build that keeps assertions.
  The result is the returned flag, the composite key under construction and the widget.
\<close>

definition failedToChange :: "string \<Rightarrow> event" where
  "failedToChange error =
     MessageBox_critical ''Failed to change database credentials'' error [Ok] NoButton"

definition addToCompositeKey ::
  "'a KeyComponentWidget_scheme \<Rightarrow> CompositeKey \<Rightarrow> key_ref option \<Rightarrow> widget
     \<Rightarrow> (bool \<times> CompositeKey \<times> widget) outcome" where
  "addToCompositeKey w newKey oldKey s =
     (if visiblePage w = Edit then
        (case validate w ''Unknown error'' of
           (valid, error) \<Rightarrow>
             if \<not> valid then Returned (False, newKey, logCall (failedToChange error) s)
             else
               (case widget_addToCompositeKey w newKey (store s) of
                  (added, newKey1, store1) \<Rightarrow>
                    if \<not> added then
                      Returned (False, newKey1, logCall (failedToChange error) (s\<lparr>store := store1\<rparr>))
                    else Returned (True, newKey1, s\<lparr>store := store1\<rparr>)))
      else if visiblePage w = LeaveOrRemove then
        (case oldKey of
           None \<Rightarrow> AssertFailed
         | Some k \<Rightarrow> Returned (True, addKey newKey k, s))
      else Returned (True, newKey, s))"

definition addToCompositeKey_CR ::
  "'a KeyComponentWidget_scheme \<Rightarrow> CompositeKey \<Rightarrow> key_ref option \<Rightarrow> widget
     \<Rightarrow> (bool \<times> CompositeKey \<times> widget) outcome" where
  "addToCompositeKey_CR w newKey oldKey s =
     (if visiblePage w = Edit then
        (case validate w ''Unknown error'' of
           (valid, error) \<Rightarrow>
             if \<not> valid then Returned (False, newKey, logCall (failedToChange error) s)
             else
               (case widget_addToCompositeKey w newKey (store s) of
                  (added, newKey1, store1) \<Rightarrow>
                    if \<not> added then
                      Returned (False, newKey1, logCall (failedToChange error) (s\<lparr>store := store1\<rparr>))
                    else Returned (True, newKey1, s\<lparr>store := store1\<rparr>)))
      else if visiblePage w = LeaveOrRemove then
        (case oldKey of
           None \<Rightarrow> AssertFailed
         | Some k \<Rightarrow> Returned (True, addChallengeResponseKey newKey k, s))
      else Returned (True, newKey, s))"

subsection \<open>saveSettings\<close>

text \<open>Lines 131-135: the dirty flag is or-ed with "some component shows the Edit page".\<close>

definition updateDirty :: "widget \<Rightarrow> widget" where
  "updateDirty s =
     (let s1 = s\<lparr>m_isDirty := (m_isDirty s \<or> visiblePage (m_passwordEditWidget s) = Edit)\<rparr>;
          s2 = s1\<lparr>m_isDirty := (m_isDirty s1 \<or> visiblePage (m_keyFileEditWidget s1) = Edit)\<rparr>
      in case m_yubiKeyEditWidget s2 of
           None \<Rightarrow> s2
         | Some y \<Rightarrow> s2\<lparr>m_isDirty := (m_isDirty s2 \<or> visiblePage y = Edit)\<rparr>)"

text \<open>Line 137: the condition of the "Key unchanged" return.\<close>

definition keyUnchanged :: "widget \<Rightarrow> bool" where
  "keyUnchanged s =
     (case key (m_db s) of
        None \<Rightarrow> False
      | Some k \<Rightarrow> keys k \<noteq> [] \<and> \<not> m_isDirty s)"

text \<open>
  Lines 148-160: the two loops that pick the old factors by type identifier. A later match
  overwrites an earlier one.
\<close>

fun snapshotKeys ::
  "key_store \<Rightarrow> key_ref list \<Rightarrow> key_ref option \<times> key_ref option
     \<Rightarrow> key_ref option \<times> key_ref option" where
  "snapshotKeys h [] (oldPasswordKey, oldFileKey) = (oldPasswordKey, oldFileKey)"
| "snapshotKeys h (k # ks) (oldPasswordKey, oldFileKey) =
     (if uuid (h k) = PasswordKey_UUID then snapshotKeys h ks (Some k, oldFileKey)
      else if uuid (h k) = FileKey_UUID then snapshotKeys h ks (oldPasswordKey, Some k)
      else snapshotKeys h ks (oldPasswordKey, oldFileKey))"

fun snapshotChallengeResponse ::
  "key_store \<Rightarrow> key_ref list \<Rightarrow> key_ref option \<Rightarrow> key_ref option" where
  "snapshotChallengeResponse h [] oldChallengeResponse = oldChallengeResponse"
| "snapshotChallengeResponse h (k # ks) oldChallengeResponse =
     (if uuid (h k) = ChallengeResponseKey_UUID then snapshotChallengeResponse h ks (Some k)
      else snapshotChallengeResponse h ks oldChallengeResponse)"

text \<open>\<^verbatim>\<open>qBound(min, val, max)\<close> of QtGlobal.\<close>

definition qBound :: "int \<Rightarrow> int \<Rightarrow> int \<Rightarrow> int" where
  "qBound lo val hi = max lo (min hi val)"

definition noPasswordBox :: event where
  "noPasswordBox = QMessageBox_exec ''No password set'' [ContinueWithoutPassword, Cancel] Cancel"

definition weakPasswordCritical :: event where
  "weakPasswordCritical =
     MessageBox_critical ''Weak password''
       ''The provided password does not meet the minimum quality requirement.'' [Ok] Ok"

definition weakPasswordWarning :: event where
  "weakPasswordWarning =
     MessageBox_warning ''Weak password''
       ''This is a weak password! For better protection of your secrets, you should choose a stronger password.''
       [ContinueWithWeakPass, Cancel] Cancel"

definition noKeyCritical :: event where
  "noKeyCritical =
     MessageBox_critical ''No encryption key added''
       ''You must add at least one encryption key to secure your database!'' [Ok] Ok"

text \<open>
  Each block of the body either leaves the function (\<open>Inl\<close>: a return value with the
  widget, or a stop) or goes on to the next block (\<open>Inr\<close>) with the composite key under
  construction.
\<close>

type_synonym save_result = "(bool \<times> widget) outcome"

text \<open>Lines 162-180: the missing-password box, or the password component.\<close>

definition passwordStep ::
  "SaveEnv \<Rightarrow> key_ref option \<Rightarrow> CompositeKey \<Rightarrow> widget \<Rightarrow> save_result + CompositeKey \<times> widget" where
  "passwordStep env oldPasswordKey newKey s =
     (if visiblePage (m_passwordEditWidget s) = AddNew \<or> isEmpty (m_passwordEditWidget s) then
        (let s1 = logCall noPasswordBox s in
         if noPassword_clickedButton env \<noteq> ContinueWithoutPassword then Inl (Returned (False, s1))
         else Inr (newKey, s1))
      else
        (case addToCompositeKey (m_passwordEditWidget s) newKey oldPasswordKey s of
           NullDeref \<Rightarrow> Inl NullDeref
         | AssertFailed \<Rightarrow> Inl AssertFailed
         | Returned (ok, newKey1, s1) \<Rightarrow>
             if \<not> ok then Inl (Returned (False, s1)) else Inr (newKey1, s1)))"

text \<open>Lines 182-208: the minimum quality and the weak-password warning.\<close>

definition qualityStep ::
  "SaveEnv \<Rightarrow> CompositeKey \<Rightarrow> widget \<Rightarrow> save_result + CompositeKey \<times> widget" where
  "qualityStep env newKey s =
     (if \<not> isEmpty (m_passwordEditWidget s) then
        (let minQuality = qBound 0 (Security_DatabasePasswordMinimumQuality env) 4 in
         if getPasswordQuality (m_passwordEditWidget s) < minQuality then
           Inl (Returned (False, logCall weakPasswordCritical s))
         else if getPasswordQuality (m_passwordEditWidget s) < Quality_Good env then
           (let s1 = logCall weakPasswordWarning s in
            if weakPassword_dialogResult env = Cancel then Inl (Returned (False, s1))
            else Inr (newKey, s1))
         else Inr (newKey, s))
      else Inr (newKey, s))"

text \<open>Lines 210-212: the key file component.\<close>

definition keyFileStep ::
  "key_ref option \<Rightarrow> CompositeKey \<Rightarrow> widget \<Rightarrow> save_result + CompositeKey \<times> widget" where
  "keyFileStep oldFileKey newKey s =
     (case addToCompositeKey (m_keyFileEditWidget s) newKey oldFileKey s of
        NullDeref \<Rightarrow> Inl NullDeref
      | AssertFailed \<Rightarrow> Inl AssertFailed
      | Returned (ok, newKey1, s1) \<Rightarrow>
          if \<not> ok then Inl (Returned (False, s1)) else Inr (newKey1, s1))"

text \<open>Lines 214-218: the challenge-response component, present with \<^verbatim>\<open>WITH_XC_YUBIKEY\<close>.\<close>

definition yubiKeyStep ::
  "key_ref option \<Rightarrow> CompositeKey \<Rightarrow> widget \<Rightarrow> save_result + CompositeKey \<times> widget" where
  "yubiKeyStep oldChallengeResponse newKey s =
     (case m_yubiKeyEditWidget s of
        None \<Rightarrow> Inr (newKey, s)
      | Some y \<Rightarrow>
          (case addToCompositeKey_CR y newKey oldChallengeResponse s of
             NullDeref \<Rightarrow> Inl NullDeref
           | AssertFailed \<Rightarrow> Inl AssertFailed
           | Returned (ok, newKey1, s1) \<Rightarrow>
               if \<not> ok then Inl (Returned (False, s1)) else Inr (newKey1, s1)))"

text \<open>
  Lines 142-218: the new composite key is created empty and filled block by block. The
  loops of lines 148 and 156 dereference \<^verbatim>\<open>m_db->key()\<close>.
\<close>

definition assembleNewKey :: "SaveEnv \<Rightarrow> widget \<Rightarrow> save_result + CompositeKey \<times> widget" where
  "assembleNewKey env s =
     (case key (m_db s) of
        None \<Rightarrow> Inl NullDeref
      | Some oldKey \<Rightarrow>
          (case snapshotKeys (store s) (keys oldKey) (None, None) of
             (oldPasswordKey, oldFileKey) \<Rightarrow>
               (let oldChallengeResponse =
                      snapshotChallengeResponse (store s) (challengeResponseKeys oldKey) None
                in case passwordStep env oldPasswordKey CompositeKey_create s of
                     Inl r \<Rightarrow> Inl r
                   | Inr (k1, s1) \<Rightarrow>
                       (case qualityStep env k1 s1 of
                          Inl r \<Rightarrow> Inl r
                        | Inr (k2, s2) \<Rightarrow>
                            (case keyFileStep oldFileKey k2 s2 of
                               Inl r \<Rightarrow> Inl r
                             | Inr (k3, s3) \<Rightarrow> yubiKeyStep oldChallengeResponse k3 s3)))))"

text \<open>
  Modelled from the spec: \<^verbatim>\<open>Database::setKey\<close> and \<^verbatim>\<open>Database::markAsModified\<close>
  (core/Database.cpp is not part of the sources). Section 4.4, step 7: "install the new
  composite key as the database's key" and "mark the database modified". Each call is also
  logged with its arguments.
\<close>

definition Database_setKey :: "CompositeKey \<Rightarrow> bool \<Rightarrow> bool \<Rightarrow> bool \<Rightarrow> widget \<Rightarrow> widget" where
  "Database_setKey k a b c s = logCall (Db_setKey k a b c) (s\<lparr>m_db := (m_db s)\<lparr>key := Some k\<rparr>\<rparr>)"

definition Database_markAsModified :: "widget \<Rightarrow> widget" where
  "Database_markAsModified s = logCall Db_markAsModified (s\<lparr>m_db := (m_db s)\<lparr>modified := True\<rparr>\<rparr>)"

text \<open>Lines 220-241: the empty-key check and the commit.\<close>

definition commitNewKey :: "CompositeKey \<Rightarrow> widget \<Rightarrow> save_result" where
  "commitNewKey newKey s =
     (if keys newKey = [] \<and> challengeResponseKeys newKey = [] then
        Returned (False, logCall noKeyCritical s)
      else
        (let s1 = Database_setKey newKey True False False s;
             s2 = logCall (QuickUnlock_reset (publicUuid (m_db s1))) s1;
             s3 = logCall (Emit_editFinished True) s2;
             s4 = (if m_isDirty s3 then Database_markAsModified s3 else s3)
         in Returned (True, initialize s4)))"

definition saveSettings :: "SaveEnv \<Rightarrow> widget \<Rightarrow> save_result" where
  "saveSettings env s =
     (let s1 = updateDirty s in
      if keyUnchanged s1 then Returned (True, s1)
      else
        (case assembleNewKey env s1 of
           Inl r \<Rightarrow> r
         | Inr (newKey, s2) \<Rightarrow> commitNewKey newKey s2))"

subsection \<open>An edit session\<close>

text \<open>
  The operations of the class, as the settings dialog invokes them on one widget object.
  \<open>Op_outside\<close> stands for everything that happens outside the class between two calls:
  the user typing into or switching the pages of the child widgets, another part of the
  program changing the database. It may change any part of the state except \<open>m_isDirty\<close>,
  a private member that only the member functions above assign.
\<close>

datatype operation =
    Op_loadSettings Database
  | Op_initialize
  | Op_uninitialize
  | Op_saveSettings SaveEnv
  | Op_discard
  | Op_showAdditionalKeyOptions
  | Op_setAdditionalKeyOptionsVisible bool
  | Op_markDirty
  | Op_outside "widget \<Rightarrow> widget"

fun step :: "operation \<Rightarrow> widget \<Rightarrow> widget outcome" where
  "step (Op_loadSettings db) s = Returned (loadSettings db s)"
| "step Op_initialize s = Returned (initialize s)"
| "step Op_uninitialize s = Returned (uninitialize s)"
| "step (Op_saveSettings env) s =
     (case saveSettings env s of
        NullDeref \<Rightarrow> NullDeref
      | AssertFailed \<Rightarrow> AssertFailed
      | Returned (b, s') \<Rightarrow> Returned s')"
| "step Op_discard s = Returned (discard s)"
| "step Op_showAdditionalKeyOptions s = Returned (showAdditionalKeyOptions s)"
| "step (Op_setAdditionalKeyOptionsVisible b) s = Returned (setAdditionalKeyOptionsVisible b s)"
| "step Op_markDirty s = Returned (markDirty s)"
| "step (Op_outside f) s = Returned ((f s)\<lparr>m_isDirty := m_isDirty s\<rparr>)"

fun run :: "operation list \<Rightarrow> widget \<Rightarrow> widget outcome" where
  "run [] s = Returned s"
| "run (x # xs) s =
     (case step x s of
        NullDeref \<Rightarrow> NullDeref
      | AssertFailed \<Rightarrow> AssertFailed
      | Returned s' \<Rightarrow> run xs s')"

section \<open>Observations on a run\<close>

text \<open>
  The events a call appended to the log, and among them the calls to the database, the
  quick-unlock cache and the completion signal (everything that is not a dialog).
\<close>

fun isDialog :: "event \<Rightarrow> bool" where
  "isDialog (QMessageBox_exec t bs d) = True"
| "isDialog (MessageBox_critical t x bs d) = True"
| "isDialog (MessageBox_warning t x bs d) = True"
| "isDialog (Db_setKey k a b c) = False"
| "isDialog (QuickUnlock_reset u) = False"
| "isDialog (Emit_editFinished b) = False"
| "isDialog Db_markAsModified = False"

definition newEvents :: "widget \<Rightarrow> widget \<Rightarrow> event list" where
  "newEvents s s' = drop (length (trace s)) (trace s')"

definition collaboratorCalls :: "event list \<Rightarrow> event list" where
  "collaboratorCalls es = filter (\<lambda>e. \<not> isDialog e) es"

text \<open>\<open>onlyDialogs s s'\<close>: \<open>s'\<close> is \<open>s\<close> with dialogs appended to the log and another key store.\<close>

definition onlyDialogs :: "widget \<Rightarrow> widget \<Rightarrow> bool" where
  "onlyDialogs s s' \<longleftrightarrow>
     (\<exists>st es. s' = s\<lparr>store := st, trace := trace s @ es\<rparr> \<and> list_all isDialog es)"

text \<open>Some component shows the \<open>Edit\<close> page.\<close>

definition anyEdit :: "widget \<Rightarrow> bool" where
  "anyEdit s \<longleftrightarrow>
     visiblePage (m_passwordEditWidget s) = Edit \<or> visiblePage (m_keyFileEditWidget s) = Edit
     \<or> (case m_yubiKeyEditWidget s of None \<Rightarrow> False | Some y \<Rightarrow> visiblePage y = Edit)"

text \<open>The returned flag, the log and the database of a result; nothing when the program stopped.\<close>

definition flagOf :: "save_result \<Rightarrow> bool option" where
  "flagOf r = (case r of Returned (b, s) \<Rightarrow> Some b | _ \<Rightarrow> None)"

definition traceOf :: "save_result \<Rightarrow> event list" where
  "traceOf r = (case r of Returned (b, s) \<Rightarrow> trace s | _ \<Rightarrow> [])"

definition dbOf :: "save_result \<Rightarrow> Database option" where
  "dbOf r = (case r of Returned (b, s) \<Rightarrow> Some (m_db s) | _ \<Rightarrow> None)"

text \<open>
  The rest of the body of \<^verbatim>\<open>saveSettings\<close> after the quality block (lines 210-241) and
  after the password block (lines 182-241), as compositions of the blocks above.
\<close>

definition afterQuality ::
  "key_ref option \<Rightarrow> key_ref option \<Rightarrow> CompositeKey \<Rightarrow> widget \<Rightarrow> save_result" where
  "afterQuality oldFileKey oldChallengeResponse newKey s =
     (case keyFileStep oldFileKey newKey s of
        Inl r \<Rightarrow> r
      | Inr (k3, s3) \<Rightarrow>
          (case yubiKeyStep oldChallengeResponse k3 s3 of
             Inl r \<Rightarrow> r
           | Inr (k4, s4) \<Rightarrow> commitNewKey k4 s4))"

definition afterPassword ::
  "SaveEnv \<Rightarrow> key_ref option \<Rightarrow> key_ref option \<Rightarrow> CompositeKey \<Rightarrow> widget \<Rightarrow> save_result" where
  "afterPassword env oldFileKey oldChallengeResponse newKey s =
     (case qualityStep env newKey s of
        Inl r \<Rightarrow> r
      | Inr (k2, s2) \<Rightarrow> afterQuality oldFileKey oldChallengeResponse k2 s2)"

section \<open>Concrete widgets and databases\<close>

text \<open>
  A store with a password key at address 1, a file key at 2 and a challenge-response key
  at 3; every other address holds an object of another type.
\<close>

definition ex_store :: key_store where
  "ex_store =
     ((\<lambda>_. \<lparr>uuid = Other_UUID 0, rawKey = []\<rparr>)
        (1 := \<lparr>uuid = PasswordKey_UUID, rawKey = [1, 2, 3]\<rparr>,
         2 := \<lparr>uuid = FileKey_UUID, rawKey = [4, 5]\<rparr>,
         3 := \<lparr>uuid = ChallengeResponseKey_UUID, rawKey = [6]\<rparr>))"

text \<open>
  A password widget on a given page, with a given emptiness and quality, whose validation
  gives the flag \<open>valid\<close> and whose \<^verbatim>\<open>addToCompositeKey\<close> derives a new password key at
  address 10.
\<close>

definition ex_password :: "Page \<Rightarrow> bool \<Rightarrow> int \<Rightarrow> bool \<Rightarrow> PasswordEditWidget" where
  "ex_password p emp q valid =
     \<lparr>visiblePage = p, componentAdded = (p = LeaveOrRemove),
      validate = (\<lambda>e. if valid then (True, e) else (False, ''Passwords do not match.'')),
      widget_addToCompositeKey =
        (\<lambda>k h. (True, addKey k 10, h(10 := \<lparr>uuid = PasswordKey_UUID, rawKey = [7, 7]\<rparr>))),
      isEmpty = emp, getPasswordQuality = q, passwordVisible = False\<rparr>"

text \<open>A key component on a given page that validates and derives a new file key at address 11.\<close>

definition ex_component :: "Page \<Rightarrow> KeyComponentWidget" where
  "ex_component p =
     \<lparr>visiblePage = p, componentAdded = (p = LeaveOrRemove),
      validate = (\<lambda>e. (True, e)),
      widget_addToCompositeKey =
        (\<lambda>k h. (True, addKey k 11, h(11 := \<lparr>uuid = FileKey_UUID, rawKey = [8]\<rparr>)))\<rparr>"

definition ex_widget ::
  "bool \<Rightarrow> PasswordEditWidget \<Rightarrow> Page \<Rightarrow> Page \<Rightarrow> CompositeKey option \<Rightarrow> widget" where
  "ex_widget dirty pw filePage yubiPage k =
     \<lparr>m_isDirty = dirty, m_passwordEditWidget = pw,
      m_keyFileEditWidget = ex_component filePage,
      m_yubiKeyEditWidget = Some (ex_component yubiPage),
      m_additionalKeyOptionsToggle_visible = True,
      m_additionalKeyOptions_visible = False,
      signalsBlocked = False,
      m_db = \<lparr>key = k, publicUuid = 99, modified = False\<rparr>,
      store = ex_store, trace = []\<rparr>"

definition ex_env :: "int \<Rightarrow> Button \<Rightarrow> Button \<Rightarrow> SaveEnv" where
  "ex_env minQ noPw weak =
     \<lparr>Security_DatabasePasswordMinimumQuality = minQ, Quality_Good = 3,
      noPassword_clickedButton = noPw, weakPassword_dialogResult = weak\<rparr>"

section \<open>Frame lemmas\<close>

text \<open>
  Every block of \<^verbatim>\<open>saveSettings\<close> before the commit only shows dialogs and may let a
  component derive a key: it leaves the database, the dirty flag and the components as
  they are, and a block that leaves the function returns false.
\<close>

lemma onlyDialogs_refl: "onlyDialogs s s"
  unfolding onlyDialogs_def
  by (rule exI [of _ "store s"], rule exI [of _ "[]"]) simp

lemma onlyDialogs_trans: "onlyDialogs s s1 \<Longrightarrow> onlyDialogs s1 s2 \<Longrightarrow> onlyDialogs s s2"
  unfolding onlyDialogs_def
proof -
  assume "\<exists>st es. s1 = s\<lparr>store := st, trace := trace s @ es\<rparr> \<and> list_all isDialog es"
    and "\<exists>st es. s2 = s1\<lparr>store := st, trace := trace s1 @ es\<rparr> \<and> list_all isDialog es"
  then obtain st es st' es' where
    a: "s1 = s\<lparr>store := st, trace := trace s @ es\<rparr>" "list_all isDialog es"
    and b: "s2 = s1\<lparr>store := st', trace := trace s1 @ es'\<rparr>" "list_all isDialog es'"
    by blast
  have "s2 = s\<lparr>store := st', trace := trace s @ (es @ es')\<rparr>"
    using a(1) b(1) by simp
  moreover have "list_all isDialog (es @ es')" using a(2) b(2) by simp
  ultimately show "\<exists>st es. s2 = s\<lparr>store := st, trace := trace s @ es\<rparr> \<and> list_all isDialog es"
    by blast
qed

lemma onlyDialogs_logCall: "isDialog e \<Longrightarrow> onlyDialogs s (logCall e s)"
  unfolding onlyDialogs_def logCall_def
  by (rule exI [of _ "store s"], rule exI [of _ "[e]"]) simp

lemma onlyDialogs_store: "onlyDialogs s (s\<lparr>store := st\<rparr>)"
  unfolding onlyDialogs_def
  by (rule exI [of _ st], rule exI [of _ "[]"]) simp

lemma isDialog_failedToChange: "isDialog (failedToChange e)"
  by (simp add: failedToChange_def)

lemma addToCompositeKey_onlyDialogs:
  "addToCompositeKey w k old s = Returned (b, k', s') \<Longrightarrow> onlyDialogs s s'"
  unfolding addToCompositeKey_def
  by (auto split: if_splits prod.splits option.splits
      intro: onlyDialogs_refl onlyDialogs_store
        onlyDialogs_trans [OF onlyDialogs_store onlyDialogs_logCall [OF isDialog_failedToChange]]
        onlyDialogs_logCall [OF isDialog_failedToChange])

lemma addToCompositeKey_CR_onlyDialogs:
  "addToCompositeKey_CR w k old s = Returned (b, k', s') \<Longrightarrow> onlyDialogs s s'"
  unfolding addToCompositeKey_CR_def
  by (auto split: if_splits prod.splits option.splits
      intro: onlyDialogs_refl onlyDialogs_store
        onlyDialogs_trans [OF onlyDialogs_store onlyDialogs_logCall [OF isDialog_failedToChange]]
        onlyDialogs_logCall [OF isDialog_failedToChange])

lemma addToCompositeKey_no_NullDeref: "addToCompositeKey w k old s \<noteq> NullDeref"
  unfolding addToCompositeKey_def
  by (simp split: prod.splits option.splits)

lemma addToCompositeKey_CR_no_NullDeref: "addToCompositeKey_CR w k old s \<noteq> NullDeref"
  unfolding addToCompositeKey_CR_def
  by (simp split: prod.splits option.splits)


lemma isDialog_boxes:
  "isDialog noPasswordBox" "isDialog weakPasswordCritical" "isDialog weakPasswordWarning"
  "isDialog noKeyCritical"
  by (simp_all add: noPasswordBox_def weakPasswordCritical_def weakPasswordWarning_def
      noKeyCritical_def)

lemma passwordStep_Inr: "passwordStep env old k s = Inr (k', s') \<Longrightarrow> onlyDialogs s s'"
  unfolding passwordStep_def
  by (auto simp: Let_def split: if_splits outcome.splits prod.splits
      intro: onlyDialogs_logCall isDialog_boxes addToCompositeKey_onlyDialogs)

lemma passwordStep_Inl:
  "passwordStep env old k s = Inl (Returned (b, s')) \<Longrightarrow> \<not> b \<and> onlyDialogs s s'"
  unfolding passwordStep_def
  by (auto simp: Let_def split: if_splits outcome.splits prod.splits
      intro: onlyDialogs_logCall isDialog_boxes addToCompositeKey_onlyDialogs)

lemma passwordStep_no_NullDeref: "passwordStep env old k s \<noteq> Inl NullDeref"
  unfolding passwordStep_def
  by (auto simp: Let_def addToCompositeKey_no_NullDeref split: if_splits outcome.splits prod.splits)

lemma qualityStep_Inr: "qualityStep env k s = Inr (k', s') \<Longrightarrow> onlyDialogs s s'"
  unfolding qualityStep_def
  by (auto simp: Let_def split: if_splits
      intro: onlyDialogs_logCall isDialog_boxes onlyDialogs_refl)

lemma qualityStep_Inl:
  "qualityStep env k s = Inl (Returned (b, s')) \<Longrightarrow> \<not> b \<and> onlyDialogs s s'"
  unfolding qualityStep_def
  by (auto simp: Let_def split: if_splits
      intro: onlyDialogs_logCall isDialog_boxes onlyDialogs_refl)

lemma qualityStep_no_NullDeref: "qualityStep env k s \<noteq> Inl NullDeref"
  unfolding qualityStep_def
  by (auto simp: Let_def)

lemma keyFileStep_Inr: "keyFileStep old k s = Inr (k', s') \<Longrightarrow> onlyDialogs s s'"
  unfolding keyFileStep_def
  by (auto split: if_splits outcome.splits prod.splits intro: addToCompositeKey_onlyDialogs)

lemma keyFileStep_Inl:
  "keyFileStep old k s = Inl (Returned (b, s')) \<Longrightarrow> \<not> b \<and> onlyDialogs s s'"
  unfolding keyFileStep_def
  by (auto split: if_splits outcome.splits prod.splits intro: addToCompositeKey_onlyDialogs)

lemma keyFileStep_no_NullDeref: "keyFileStep old k s \<noteq> Inl NullDeref"
  unfolding keyFileStep_def
  by (auto simp: addToCompositeKey_no_NullDeref split: if_splits outcome.splits prod.splits)

lemma yubiKeyStep_Inr: "yubiKeyStep old k s = Inr (k', s') \<Longrightarrow> onlyDialogs s s'"
  unfolding yubiKeyStep_def
  by (auto split: if_splits outcome.splits prod.splits option.splits
      intro: addToCompositeKey_CR_onlyDialogs onlyDialogs_refl)

lemma yubiKeyStep_Inl:
  "yubiKeyStep old k s = Inl (Returned (b, s')) \<Longrightarrow> \<not> b \<and> onlyDialogs s s'"
  unfolding yubiKeyStep_def
  by (auto split: if_splits outcome.splits prod.splits option.splits
      intro: addToCompositeKey_CR_onlyDialogs)

lemma yubiKeyStep_no_NullDeref: "yubiKeyStep old k s \<noteq> Inl NullDeref"
  unfolding yubiKeyStep_def
  by (auto simp: addToCompositeKey_CR_no_NullDeref
      split: if_splits outcome.splits prod.splits option.splits)

lemma assembleNewKey_Inr: "assembleNewKey env s = Inr (k, s') \<Longrightarrow> onlyDialogs s s'"
  unfolding assembleNewKey_def
  by (auto simp: Let_def split: option.splits prod.splits sum.splits
      dest!: passwordStep_Inr qualityStep_Inr keyFileStep_Inr yubiKeyStep_Inr
      intro: onlyDialogs_trans)

lemma assembleNewKey_Inl:
  "assembleNewKey env s = Inl (Returned (b, s')) \<Longrightarrow> \<not> b \<and> onlyDialogs s s'"
  unfolding assembleNewKey_def
  by (auto simp: Let_def split: option.splits prod.splits sum.splits
      dest!: passwordStep_Inr qualityStep_Inr keyFileStep_Inr yubiKeyStep_Inr
        passwordStep_Inl qualityStep_Inl keyFileStep_Inl yubiKeyStep_Inl
      intro: onlyDialogs_trans)

lemma assembleNewKey_NullDeref:
  "assembleNewKey env s = Inl NullDeref \<longleftrightarrow> key (m_db s) = None"
  unfolding assembleNewKey_def
  by (auto simp: Let_def passwordStep_no_NullDeref qualityStep_no_NullDeref
      keyFileStep_no_NullDeref yubiKeyStep_no_NullDeref
      split: option.splits prod.splits sum.splits)


lemma onlyDialogs_fields:
  assumes "onlyDialogs s s'"
  shows "m_db s' = m_db s" and "m_isDirty s' = m_isDirty s"
    and "m_passwordEditWidget s' = m_passwordEditWidget s"
    and "m_keyFileEditWidget s' = m_keyFileEditWidget s"
    and "m_yubiKeyEditWidget s' = m_yubiKeyEditWidget s"
  using assms unfolding onlyDialogs_def by auto

lemma onlyDialogs_trace:
  assumes "onlyDialogs s s'"
  shows "\<exists>es. trace s' = trace s @ es \<and> list_all isDialog es"
  using assms unfolding onlyDialogs_def by auto

lemma collaboratorCalls_dialogs: "list_all isDialog es \<Longrightarrow> collaboratorCalls (es @ cs) = collaboratorCalls cs"
  unfolding collaboratorCalls_def by (induction es) auto

lemma onlyDialogs_calls:
  assumes "onlyDialogs s s'"
  shows "collaboratorCalls (newEvents s s') = []"
proof -
  obtain es where "trace s' = trace s @ es" "list_all isDialog es"
    using onlyDialogs_trace [OF assms] by blast
  then show ?thesis
    using collaboratorCalls_dialogs [of es "[]"]
    by (simp add: newEvents_def collaboratorCalls_def)
qed

lemma updateDirty_fields:
  "trace (updateDirty s) = trace s" "m_db (updateDirty s) = m_db s"
  "store (updateDirty s) = store s"
  "m_passwordEditWidget (updateDirty s) = m_passwordEditWidget s"
  "m_keyFileEditWidget (updateDirty s) = m_keyFileEditWidget s"
  "m_yubiKeyEditWidget (updateDirty s) = m_yubiKeyEditWidget s"
  unfolding updateDirty_def by (simp_all add: Let_def split: option.splits)

lemma updateDirty_dirty:
  "m_isDirty (updateDirty s) \<longleftrightarrow>
     m_isDirty s \<or> visiblePage (m_passwordEditWidget s) = Edit
       \<or> visiblePage (m_keyFileEditWidget s) = Edit
       \<or> (case m_yubiKeyEditWidget s of None \<Rightarrow> False | Some y \<Rightarrow> visiblePage y = Edit)"
  unfolding updateDirty_def by (simp add: Let_def split: option.splits)

lemma initialize_fields:
  "trace (initialize s) = trace s" "m_db (initialize s) = m_db s"
  "m_isDirty (initialize s) = m_isDirty s" "store (initialize s) = store s"
  "signalsBlocked (initialize s) = signalsBlocked s"
  unfolding initialize_def by (simp_all add: Let_def)

lemma commitNewKey_True:
  assumes "commitNewKey k s = Returned (True, s')"
  shows "keys k \<noteq> [] \<or> challengeResponseKeys k \<noteq> []"
    and "trace s' = trace s @ [Db_setKey k True False False, QuickUnlock_reset (publicUuid (m_db s)),
           Emit_editFinished True] @ (if m_isDirty s then [Db_markAsModified] else [])"
    and "key (m_db s') = Some k"
    and "m_isDirty s' = m_isDirty s"
  using assms unfolding commitNewKey_def
  by (auto simp: Let_def initialize_fields Database_setKey_def Database_markAsModified_def
      logCall_def split: if_splits)

lemma commitNewKey_False:
  assumes "commitNewKey k s = Returned (False, s')"
  shows "keys k = [] \<and> challengeResponseKeys k = [] \<and> s' = logCall noKeyCritical s"
  using assms unfolding commitNewKey_def
  by (auto simp: Let_def split: if_splits)

lemma commitNewKey_no_NullDeref: "commitNewKey k s \<noteq> NullDeref"
  unfolding commitNewKey_def by (simp add: Let_def)

section \<open>The three ways saveSettings returns\<close>

text \<open>
  A run that returns took the "Key unchanged" return, or left with false after dialogs
  only, or assembled a key and committed it.
\<close>

lemma saveSettings_cases:
  assumes "saveSettings env s = Returned (b, s')"
  shows "(keyUnchanged (updateDirty s) \<and> b \<and> s' = updateDirty s)
    \<or> (\<not> keyUnchanged (updateDirty s) \<and> \<not> b \<and> onlyDialogs (updateDirty s) s')
    \<or> (\<not> keyUnchanged (updateDirty s) \<and> b
         \<and> (\<exists>newKey s2. assembleNewKey env (updateDirty s) = Inr (newKey, s2)
               \<and> onlyDialogs (updateDirty s) s2
               \<and> commitNewKey newKey s2 = Returned (True, s')))"
proof (cases "keyUnchanged (updateDirty s)")
  case True
  then show ?thesis using assms unfolding saveSettings_def by (simp add: Let_def)
next
  case False
  then have r: "(case assembleNewKey env (updateDirty s) of
           Inl r \<Rightarrow> r
         | Inr (newKey, s2) \<Rightarrow> commitNewKey newKey s2) = Returned (b, s')"
    using assms unfolding saveSettings_def by (simp add: Let_def)
  show ?thesis
  proof (cases "assembleNewKey env (updateDirty s)")
    case (Inl x)
    then have "assembleNewKey env (updateDirty s) = Inl (Returned (b, s'))" using r by simp
    then show ?thesis using assembleNewKey_Inl False by blast
  next
    case (Inr y)
    obtain newKey s2 where y: "y = (newKey, s2)" by (cases y)
    have a: "assembleNewKey env (updateDirty s) = Inr (newKey, s2)" using Inr y by simp
    have c: "commitNewKey newKey s2 = Returned (b, s')" using r a by simp
    have o: "onlyDialogs (updateDirty s) s2" using assembleNewKey_Inr [OF a] .
    show ?thesis
    proof (cases b)
      case True
      then have "commitNewKey newKey s2 = Returned (True, s')" using c by simp
      then show ?thesis using True False a o by blast
    next
      case nb: False
      then have "commitNewKey newKey s2 = Returned (False, s')" using c by simp
      then have "s' = logCall noKeyCritical s2" using commitNewKey_False by blast
      then have "onlyDialogs s2 s'" using onlyDialogs_logCall isDialog_boxes(4) by blast
      then show ?thesis using False nb o onlyDialogs_trans by blast
    qed
  qed
qed

lemma onlyDialogs_updateDirty_calls:
  assumes "onlyDialogs (updateDirty s) s'"
  shows "collaboratorCalls (newEvents s s') = []" and "m_db s' = m_db s"
    and "\<forall>e\<in>set (newEvents s s'). isDialog e"
proof -
  obtain es where e: "trace s' = trace s @ es" "list_all isDialog es"
    using onlyDialogs_trace [OF assms] by (auto simp: updateDirty_fields)
  show "collaboratorCalls (newEvents s s') = []"
    using e collaboratorCalls_dialogs [of es "[]"]
    by (simp add: newEvents_def collaboratorCalls_def)
  show "m_db s' = m_db s"
    using onlyDialogs_fields(1) [OF assms] by (simp add: updateDirty_fields)
  show "\<forall>e\<in>set (newEvents s s'). isDialog e"
    using e by (simp add: newEvents_def list_all_iff)
qed

lemma saveSettings_commit_trace:
  assumes "assembleNewKey env (updateDirty s) = Inr (newKey, s2)"
    and "commitNewKey newKey s2 = Returned (True, s')"
  shows "\<exists>ds. list_all isDialog ds \<and>
           newEvents s s' = ds @ [Db_setKey newKey True False False,
             QuickUnlock_reset (publicUuid (m_db s)), Emit_editFinished True]
             @ (if m_isDirty (updateDirty s) then [Db_markAsModified] else [])"
    and "key (m_db s') = Some newKey"
    and "keys newKey \<noteq> [] \<or> challengeResponseKeys newKey \<noteq> []"
    and "m_isDirty s' = m_isDirty (updateDirty s)"
proof -
  have o: "onlyDialogs (updateDirty s) s2" using assembleNewKey_Inr [OF assms(1)] .
  obtain ds where e: "trace s2 = trace s @ ds" "list_all isDialog ds"
    using onlyDialogs_trace [OF o] by (auto simp: updateDirty_fields)
  have d: "m_db s2 = m_db s" "m_isDirty s2 = m_isDirty (updateDirty s)"
    using onlyDialogs_fields(1,2) [OF o] by (simp_all add: updateDirty_fields)
  have "newEvents s s' = ds @ [Db_setKey newKey True False False,
             QuickUnlock_reset (publicUuid (m_db s)), Emit_editFinished True]
             @ (if m_isDirty (updateDirty s) then [Db_markAsModified] else [])"
    using commitNewKey_True(2) [OF assms(2)] e d by (simp add: newEvents_def)
  then show "\<exists>ds. list_all isDialog ds \<and>
           newEvents s s' = ds @ [Db_setKey newKey True False False,
             QuickUnlock_reset (publicUuid (m_db s)), Emit_editFinished True]
             @ (if m_isDirty (updateDirty s) then [Db_markAsModified] else [])"
    using e(2) by blast
  show "key (m_db s') = Some newKey" using commitNewKey_True(3) [OF assms(2)] .
  show "keys newKey \<noteq> [] \<or> challengeResponseKeys newKey \<noteq> []"
    using commitNewKey_True(1) [OF assms(2)] .
  show "m_isDirty s' = m_isDirty (updateDirty s)"
    using commitNewKey_True(4) [OF assms(2)] d by simp
qed

text \<open>The definitions unfolded to run the model on a concrete widget.\<close>

lemmas model_defs = saveSettings_def updateDirty_def keyUnchanged_def assembleNewKey_def
  passwordStep_def qualityStep_def keyFileStep_def yubiKeyStep_def commitNewKey_def
  addToCompositeKey_def addToCompositeKey_CR_def addKey_def addChallengeResponseKey_def
  CompositeKey_create_def logCall_def Database_setKey_def Database_markAsModified_def
  initialize_def setComponentAdded_def qBound_def failedToChange_def
  ex_widget_def ex_password_def ex_component_def ex_env_def ex_store_def
  flagOf_def traceOf_def dbOf_def newEvents_def collaboratorCalls_def Let_def

section \<open>The body of saveSettings block by block\<close>

lemma updateDirty_clean: "\<not> m_isDirty s \<Longrightarrow> \<not> anyEdit s \<Longrightarrow> updateDirty s = s"
  unfolding updateDirty_def anyEdit_def by (auto simp: Let_def split: option.splits)

lemma qBound_range: "0 \<le> qBound 0 v 4 \<and> qBound 0 v 4 \<le> 4"
  by (simp add: qBound_def)

lemma saveSettings_dirty_Edit:
  assumes "visiblePage (m_passwordEditWidget s) = Edit" and "key (m_db s) = Some k"
  shows "saveSettings env s =
     (case assembleNewKey env (updateDirty s) of
        Inl r \<Rightarrow> r | Inr (newKey, s2) \<Rightarrow> commitNewKey newKey s2)"
  using assms
  by (simp add: saveSettings_def Let_def keyUnchanged_def updateDirty_dirty updateDirty_fields)

lemma saveSettings_blocks:
  assumes "key (m_db s) = Some k" and "\<not> keyUnchanged (updateDirty s)"
  shows "saveSettings env s =
     (case passwordStep env (fst (snapshotKeys (store s) (keys k) (None, None)))
             CompositeKey_create (updateDirty s) of
        Inl r \<Rightarrow> r
      | Inr (k1, s1) \<Rightarrow>
          afterPassword env (snd (snapshotKeys (store s) (keys k) (None, None)))
            (snapshotChallengeResponse (store s) (challengeResponseKeys k) None) k1 s1)"
  using assms
  by (cases "snapshotKeys (store s) (keys k) (None, None)")
    (simp add: saveSettings_def assembleNewKey_def afterPassword_def afterQuality_def Let_def
      updateDirty_fields split: sum.splits prod.splits)

lemma commitNewKey_trace:
  "commitNewKey k s = Returned (b, s') \<Longrightarrow> \<exists>es. trace s' = trace s @ es"
  unfolding commitNewKey_def
  by (auto simp: Let_def initialize_fields Database_setKey_def Database_markAsModified_def
      logCall_def split: if_splits)

lemma onlyDialogs_extends: "onlyDialogs s s' \<Longrightarrow> \<exists>es. trace s' = trace s @ es"
  using onlyDialogs_trace by blast

lemma afterQuality_trace:
  assumes "afterQuality f c k s = Returned (b, s')"
  shows "\<exists>es. trace s' = trace s @ es"
proof (cases "keyFileStep f k s")
  case (Inl r)
  then have "keyFileStep f k s = Inl (Returned (b, s'))"
    using assms by (simp add: afterQuality_def)
  then show ?thesis using keyFileStep_Inl onlyDialogs_extends by blast
next
  case (Inr y)
  obtain k3 s3 where y: "y = (k3, s3)" by (cases y)
  have e3: "\<exists>es. trace s3 = trace s @ es"
    using keyFileStep_Inr onlyDialogs_extends Inr y by blast
  show ?thesis
  proof (cases "yubiKeyStep c k3 s3")
    case (Inl r)
    then have "yubiKeyStep c k3 s3 = Inl (Returned (b, s'))"
      using assms Inr y by (simp add: afterQuality_def)
    then have "\<exists>es. trace s' = trace s3 @ es"
      using yubiKeyStep_Inl onlyDialogs_extends by blast
    then show ?thesis using e3 by auto
  next
    case r2: (Inr z)
    obtain k4 s4 where z: "z = (k4, s4)" by (cases z)
    have e4: "\<exists>es. trace s4 = trace s3 @ es"
      using yubiKeyStep_Inr onlyDialogs_extends r2 z by blast
    have "commitNewKey k4 s4 = Returned (b, s')"
      using assms Inr y r2 z by (simp add: afterQuality_def)
    then have "\<exists>es. trace s' = trace s4 @ es" by (rule commitNewKey_trace)
    then show ?thesis using e3 e4 by auto
  qed
qed

lemma afterPassword_trace:
  assumes "afterPassword env f c k s = Returned (b, s')"
  shows "\<exists>es. trace s' = trace s @ es"
proof (cases "qualityStep env k s")
  case (Inl r)
  then have "qualityStep env k s = Inl (Returned (b, s'))"
    using assms by (simp add: afterPassword_def)
  then show ?thesis using qualityStep_Inl onlyDialogs_extends by blast
next
  case (Inr y)
  obtain k2 s2 where y: "y = (k2, s2)" by (cases y)
  have e2: "\<exists>es. trace s2 = trace s @ es"
    using qualityStep_Inr onlyDialogs_extends Inr y by blast
  have "afterQuality f c k2 s2 = Returned (b, s')"
    using assms Inr y by (simp add: afterPassword_def)
  then have "\<exists>es. trace s' = trace s2 @ es" by (rule afterQuality_trace)
  then show ?thesis using e2 by auto
qed

section \<open>The dirty flag along a session\<close>

lemma keyUnchanged_key:
  "keyUnchanged s \<Longrightarrow> \<exists>k. key (m_db s) = Some k \<and> keys k \<noteq> []"
  unfolding keyUnchanged_def by (auto split: option.splits)

lemma loadKeys_dirty: "m_isDirty (fst (loadKeys h ks (s, a))) = m_isDirty s"
  by (induction ks arbitrary: s a) simp_all

lemma loadChallengeResponseKeys_dirty:
  "m_isDirty (fst (loadChallengeResponseKeys h ks (s, a))) = m_isDirty s"
  by (induction ks arbitrary: s a) simp_all

lemma loadSettings_dirty: "m_isDirty (loadSettings db s) = m_isDirty s"
proof -
  have a: "m_isDirty s2 = m_isDirty s1" if "loadKeys h ks (s1, x) = (s2, y)" for h ks s1 x s2 y
    using loadKeys_dirty [of h ks s1 x] that by simp
  have b: "m_isDirty s2 = m_isDirty s1"
    if "loadChallengeResponseKeys h ks (s1, x) = (s2, y)" for h ks s1 x s2 y
    using loadChallengeResponseKeys_dirty [of h ks s1 x] that by simp
  show ?thesis
    unfolding loadSettings_def base_loadSettings_def setAdditionalKeyOptionsVisible_def
      changeVisiblePage_def
    by (auto simp: Let_def split: option.splits prod.splits if_splits dest!: a b)
qed

lemma saveSettings_dirty:
  assumes "saveSettings env s = Returned (b, s')"
  shows "m_isDirty s' = m_isDirty (updateDirty s)"
  using saveSettings_cases [OF assms]
proof (elim disjE conjE exE)
  assume "s' = updateDirty s"
  then show ?thesis by simp
next
  assume "onlyDialogs (updateDirty s) s'"
  then show ?thesis by (rule onlyDialogs_fields(2))
next
  fix newKey s2
  assume "assembleNewKey env (updateDirty s) = Inr (newKey, s2)"
    and "commitNewKey newKey s2 = Returned (True, s')"
  then show ?thesis by (rule saveSettings_commit_trace(4))
qed

lemma step_dirty:
  assumes "m_isDirty s" and "step x s = Returned s'"
  shows "m_isDirty s'"
proof (cases x)
  case (Op_saveSettings env)
  then obtain b where "saveSettings env s = Returned (b, s')"
    using assms(2) by (auto split: outcome.splits)
  then show ?thesis using saveSettings_dirty assms(1) updateDirty_dirty by blast
qed (use assms in \<open>auto simp: loadSettings_dirty initialize_fields uninitialize_def discard_def
      logCall_def showAdditionalKeyOptions_def setAdditionalKeyOptionsVisible_def markDirty_def\<close>)

lemma run_dirty: "m_isDirty s \<Longrightarrow> run xs s = Returned s' \<Longrightarrow> m_isDirty s'"
proof (induction xs arbitrary: s)
  case Nil
  then show ?case by simp
next
  case (Cons x xs)
  then obtain s1 where s1: "step x s = Returned s1" "run xs s1 = Returned s'"
    by (auto split: outcome.splits)
  then show ?case using Cons.IH step_dirty [OF Cons.prems(1) s1(1)] by blast
qed

lemma dirty_not_keyUnchanged: "m_isDirty s \<Longrightarrow> \<not> keyUnchanged (updateDirty s)"
  by (auto simp: keyUnchanged_def updateDirty_dirty split: option.splits)

section \<open>The snapshot loops\<close>

text \<open>
  Each loop leaves the last key of the list whose type identifier matches, or the initial
  null pointer when none matches.
\<close>

lemma snapshotKeys_password:
  "fst (snapshotKeys h ks (a, b)) =
     (case filter (\<lambda>k. uuid (h k) = PasswordKey_UUID) ks of [] \<Rightarrow> a | x # xs \<Rightarrow> Some (last (x # xs)))"
  by (induction ks arbitrary: a b) (auto split: list.splits)

lemma snapshotKeys_file:
  "snd (snapshotKeys h ks (a, b)) =
     (case filter (\<lambda>k. uuid (h k) = FileKey_UUID) ks of [] \<Rightarrow> b | x # xs \<Rightarrow> Some (last (x # xs)))"
  by (induction ks arbitrary: a b) (auto split: list.splits)

lemma snapshotChallengeResponse_last:
  "snapshotChallengeResponse h ks a =
     (case filter (\<lambda>k. uuid (h k) = ChallengeResponseKey_UUID) ks of
        [] \<Rightarrow> a | x # xs \<Rightarrow> Some (last (x # xs)))"
  by (induction ks arbitrary: a) (auto split: list.splits)

lemma last_filter_mem: "filter P ks = x # xs \<Longrightarrow> last (x # xs) \<in> set ks \<and> P (last (x # xs))"
proof -
  assume f: "filter P ks = x # xs"
  have "last (x # xs) \<in> set (filter P ks)"
    unfolding f by (rule last_in_set) simp
  then show ?thesis by simp
qed

lemma filter_nonempty: "k \<in> set ks \<Longrightarrow> P k \<Longrightarrow> \<exists>x xs. filter P ks = x # xs"
  by (metis filter_empty_conv list.exhaust)

lemma snapshotKeys_password_found:
  assumes "kp \<in> set ks" "uuid (h kp) = PasswordKey_UUID"
  shows "\<exists>p. fst (snapshotKeys h ks (a, b)) = Some p \<and> p \<in> set ks
           \<and> uuid (h p) = PasswordKey_UUID"
proof -
  obtain x xs where f: "filter (\<lambda>k. uuid (h k) = PasswordKey_UUID) ks = x # xs"
    using filter_nonempty [of kp ks "\<lambda>k. uuid (h k) = PasswordKey_UUID"] assms by blast
  have "fst (snapshotKeys h ks (a, b)) = Some (last (x # xs))"
    using f by (simp add: snapshotKeys_password)
  then show ?thesis using last_filter_mem [OF f] by blast
qed

lemma snapshotKeys_file_found:
  assumes "kf \<in> set ks" "uuid (h kf) = FileKey_UUID"
  shows "\<exists>f. snd (snapshotKeys h ks (a, b)) = Some f \<and> f \<in> set ks
           \<and> uuid (h f) = FileKey_UUID"
proof -
  obtain x xs where f: "filter (\<lambda>k. uuid (h k) = FileKey_UUID) ks = x # xs"
    using filter_nonempty [of kf ks "\<lambda>k. uuid (h k) = FileKey_UUID"] assms by blast
  have "snd (snapshotKeys h ks (a, b)) = Some (last (x # xs))"
    using f by (simp add: snapshotKeys_file)
  then show ?thesis using last_filter_mem [OF f] by blast
qed

lemma snapshotChallengeResponse_found:
  assumes "kc \<in> set cs" "uuid (h kc) = ChallengeResponseKey_UUID"
  shows "\<exists>c. snapshotChallengeResponse h cs a = Some c \<and> c \<in> set cs
           \<and> uuid (h c) = ChallengeResponseKey_UUID"
proof -
  obtain x xs where f: "filter (\<lambda>k. uuid (h k) = ChallengeResponseKey_UUID) cs = x # xs"
    using filter_nonempty [of kc cs "\<lambda>k. uuid (h k) = ChallengeResponseKey_UUID"] assms
    by blast
  have "snapshotChallengeResponse h cs a = Some (last (x # xs))"
    using f by (simp add: snapshotChallengeResponse_last)
  then show ?thesis using last_filter_mem [OF f] by blast
qed

section \<open>C1: no empty key is installed\<close>

text \<open>
  Claim C1. Whenever \<^verbatim>\<open>saveSettings\<close> returns true, the database holds a composite key
  with at least one factor key or one challenge-response factor, and every key passed to
  \<^verbatim>\<open>setKey\<close> during a run has one (and the run returned true). When the key assembled
  from the components has neither, \<^verbatim>\<open>saveSettings\<close> shows the "No encryption key added"
  error, returns false, calls nothing and leaves the database as it was; the old key
  plays no part in this, and the concrete run below starts from an empty old key.
\<close>

theorem saveSettings_never_installs_empty_key:
  "(saveSettings env s = Returned (True, s') \<longrightarrow>
      (\<exists>k. key (m_db s') = Some k \<and> (keys k \<noteq> [] \<or> challengeResponseKeys k \<noteq> [])))
   \<and> (saveSettings env s = Returned (b, s') \<and> Db_setKey k x y z \<in> set (newEvents s s') \<longrightarrow>
        b \<and> (keys k \<noteq> [] \<or> challengeResponseKeys k \<noteq> []))
   \<and> (\<not> keyUnchanged (updateDirty s)
        \<and> assembleNewKey env (updateDirty s) = Inr (newKey, s2)
        \<and> keys newKey = [] \<and> challengeResponseKeys newKey = [] \<longrightarrow>
        saveSettings env s = Returned (False, logCall noKeyCritical s2)
        \<and> m_db (logCall noKeyCritical s2) = m_db s
        \<and> collaboratorCalls (newEvents s (logCall noKeyCritical s2)) = [])"
proof -
  have installed: "saveSettings env s = Returned (True, s') \<longrightarrow>
      (\<exists>k. key (m_db s') = Some k \<and> (keys k \<noteq> [] \<or> challengeResponseKeys k \<noteq> []))"
  proof
    assume r: "saveSettings env s = Returned (True, s')"
    from saveSettings_cases [OF r]
    consider (unchanged) "keyUnchanged (updateDirty s)" "s' = updateDirty s"
      | (commit) newKey s2 where "assembleNewKey env (updateDirty s) = Inr (newKey, s2)"
          "commitNewKey newKey s2 = Returned (True, s')"
      by blast
    then show "\<exists>k. key (m_db s') = Some k \<and> (keys k \<noteq> [] \<or> challengeResponseKeys k \<noteq> [])"
    proof cases
      case unchanged
      then show ?thesis using keyUnchanged_key by blast
    next
      case commit
      then show ?thesis using saveSettings_commit_trace(2,3) by blast
    qed
  qed
  have logged: "saveSettings env s = Returned (b, s') \<and> Db_setKey k x y z \<in> set (newEvents s s')
      \<longrightarrow> b \<and> (keys k \<noteq> [] \<or> challengeResponseKeys k \<noteq> [])"
  proof
    assume h: "saveSettings env s = Returned (b, s') \<and> Db_setKey k x y z \<in> set (newEvents s s')"
    then have r: "saveSettings env s = Returned (b, s')"
      and m: "Db_setKey k x y z \<in> set (newEvents s s')" by simp_all
    from saveSettings_cases [OF r]
    consider (unchanged) "s' = updateDirty s"
      | (abort) "onlyDialogs (updateDirty s) s'"
      | (commit) newKey s2 where "b" "assembleNewKey env (updateDirty s) = Inr (newKey, s2)"
          "commitNewKey newKey s2 = Returned (True, s')"
      by blast
    then show "b \<and> (keys k \<noteq> [] \<or> challengeResponseKeys k \<noteq> [])"
    proof cases
      case unchanged
      then show ?thesis using m by (simp add: newEvents_def updateDirty_fields)
    next
      case abort
      then have "isDialog (Db_setKey k x y z)"
        using onlyDialogs_updateDirty_calls(3) m by blast
      then show ?thesis by simp
    next
      case commit
      obtain ds where ds: "list_all isDialog ds"
        "newEvents s s' = ds @ [Db_setKey newKey True False False,
             QuickUnlock_reset (publicUuid (m_db s)), Emit_editFinished True]
             @ (if m_isDirty (updateDirty s) then [Db_markAsModified] else [])"
        using saveSettings_commit_trace(1) [OF commit(2,3)] by blast
      have "Db_setKey k x y z \<notin> set ds"
        using ds(1) by (auto simp: list_all_iff)
      then have "k = newKey" using m unfolding ds(2) by (auto split: if_splits)
      then show ?thesis using commit(1) saveSettings_commit_trace(3) [OF commit(2,3)] by simp
    qed
  qed
  have empty: "\<not> keyUnchanged (updateDirty s)
        \<and> assembleNewKey env (updateDirty s) = Inr (newKey, s2)
        \<and> keys newKey = [] \<and> challengeResponseKeys newKey = [] \<longrightarrow>
        saveSettings env s = Returned (False, logCall noKeyCritical s2)
        \<and> m_db (logCall noKeyCritical s2) = m_db s
        \<and> collaboratorCalls (newEvents s (logCall noKeyCritical s2)) = []"
  proof
    assume h: "\<not> keyUnchanged (updateDirty s)
        \<and> assembleNewKey env (updateDirty s) = Inr (newKey, s2)
        \<and> keys newKey = [] \<and> challengeResponseKeys newKey = []"
    then have a: "assembleNewKey env (updateDirty s) = Inr (newKey, s2)" by simp
    have r: "saveSettings env s = Returned (False, logCall noKeyCritical s2)"
      using h unfolding saveSettings_def commitNewKey_def by (simp add: Let_def)
    have "onlyDialogs (updateDirty s) (logCall noKeyCritical s2)"
      using onlyDialogs_trans [OF assembleNewKey_Inr [OF a]
          onlyDialogs_logCall [OF isDialog_boxes(4)]] .
    then show "saveSettings env s = Returned (False, logCall noKeyCritical s2)
        \<and> m_db (logCall noKeyCritical s2) = m_db s
        \<and> collaboratorCalls (newEvents s (logCall noKeyCritical s2)) = []"
      using r onlyDialogs_updateDirty_calls(1,2) by blast
  qed
  show ?thesis using installed logged empty by blast
qed

theorem saveSettings_never_installs_empty_key_witness:
  "(\<exists>s'. saveSettings (ex_env 0 Cancel Cancel)
           (ex_widget False (ex_password Edit False 4 True) AddNew AddNew
              (Some \<lparr>keys = [], challengeResponseKeys = []\<rparr>)) = Returned (True, s')
      \<and> Db_setKey \<lparr>keys = [10], challengeResponseKeys = []\<rparr> True False False
           \<in> set (newEvents
                (ex_widget False (ex_password Edit False 4 True) AddNew AddNew
                   (Some \<lparr>keys = [], challengeResponseKeys = []\<rparr>)) s')
      \<and> (keys \<lparr>keys = [10], challengeResponseKeys = []\<rparr> \<noteq> []
           \<or> challengeResponseKeys \<lparr>keys = [10], challengeResponseKeys = []\<rparr> \<noteq> [])
      \<and> (\<exists>k. key (m_db s') = Some k \<and> (keys k \<noteq> [] \<or> challengeResponseKeys k \<noteq> [])))
   \<and> \<not> keyUnchanged (updateDirty
         (ex_widget False (ex_password AddNew True 0 True) AddNew AddNew
            (Some \<lparr>keys = [], challengeResponseKeys = []\<rparr>)))
   \<and> assembleNewKey (ex_env 0 ContinueWithoutPassword Cancel)
        (updateDirty (ex_widget False (ex_password AddNew True 0 True) AddNew AddNew
            (Some \<lparr>keys = [], challengeResponseKeys = []\<rparr>)))
       = Inr (\<lparr>keys = [], challengeResponseKeys = []\<rparr>,
              logCall noPasswordBox
                (ex_widget False (ex_password AddNew True 0 True) AddNew AddNew
                   (Some \<lparr>keys = [], challengeResponseKeys = []\<rparr>)))
   \<and> saveSettings (ex_env 0 ContinueWithoutPassword Cancel)
        (ex_widget False (ex_password AddNew True 0 True) AddNew AddNew
            (Some \<lparr>keys = [], challengeResponseKeys = []\<rparr>))
       = Returned (False, logCall noKeyCritical (logCall noPasswordBox
           (ex_widget False (ex_password AddNew True 0 True) AddNew AddNew
              (Some \<lparr>keys = [], challengeResponseKeys = []\<rparr>))))
   \<and> traceOf (saveSettings (ex_env 0 ContinueWithoutPassword Cancel)
        (ex_widget False (ex_password AddNew True 0 True) AddNew AddNew
            (Some \<lparr>keys = [], challengeResponseKeys = []\<rparr>)))
       = [noPasswordBox, noKeyCritical]"
proof -
  let ?A = "ex_widget False (ex_password Edit False 4 True) AddNew AddNew
              (Some \<lparr>keys = [], challengeResponseKeys = []\<rparr>)"
  let ?K = "\<lparr>keys = [10], challengeResponseKeys = []\<rparr>"
  let ?Z = "ex_widget False (ex_password AddNew True 0 True) AddNew AddNew
              (Some \<lparr>keys = [], challengeResponseKeys = []\<rparr>)"
  let ?E = "ex_env 0 ContinueWithoutPassword Cancel"
  have "\<exists>s'. saveSettings (ex_env 0 Cancel Cancel) ?A = Returned (True, s')"
    by (simp add: model_defs)
  then obtain a where a: "saveSettings (ex_env 0 Cancel Cancel) ?A = Returned (True, a)"
    by blast
  have "Db_setKey ?K True False False
      \<in> set (traceOf (saveSettings (ex_env 0 Cancel Cancel) ?A))"
    by (simp add: model_defs)
  then have m: "Db_setKey ?K True False False \<in> set (newEvents ?A a)"
    using a by (simp add: traceOf_def newEvents_def ex_widget_def)
  have pa: "keys ?K \<noteq> [] \<or> challengeResponseKeys ?K \<noteq> []"
    "\<exists>k. key (m_db a) = Some k \<and> (keys k \<noteq> [] \<or> challengeResponseKeys k \<noteq> [])"
    using saveSettings_never_installs_empty_key
      [where env = "ex_env 0 Cancel Cancel" and s = ?A and s' = a and b = True and k = ?K
         and x = True and y = False and z = False] a m
    by blast+
  have u: "updateDirty ?Z = ?Z" by (simp add: model_defs)
  have nz: "\<not> keyUnchanged (updateDirty ?Z)" by (simp add: model_defs)
  have az: "assembleNewKey ?E (updateDirty ?Z)
       = Inr (\<lparr>keys = [], challengeResponseKeys = []\<rparr>, logCall noPasswordBox ?Z)"
    by (simp add: model_defs)
  have pz: "saveSettings ?E ?Z = Returned (False, logCall noKeyCritical (logCall noPasswordBox ?Z))"
    using saveSettings_never_installs_empty_key
      [where env = ?E and s = ?Z and newKey = "\<lparr>keys = [], challengeResponseKeys = []\<rparr>"
         and ?s2.0 = "logCall noPasswordBox ?Z"] nz az
    by simp
  have tz: "traceOf (saveSettings ?E ?Z) = [noPasswordBox, noKeyCritical]"
    unfolding pz by (simp add: traceOf_def logCall_def ex_widget_def)
  show ?thesis using a m pa nz az pz tz by blast
qed

section \<open>C2: the "Key unchanged" return\<close>

text \<open>
  Claim C2 as stated fails. With no component on the \<open>Edit\<close> page and a current key of a
  password key and a file key, a save after a click on the remove button of the key file
  (which has set the dirty flag) builds a new key and calls \<^verbatim>\<open>setKey\<close>. And a current
  key that holds a challenge-response factor only is not empty, yet line 137 tests the
  factor keys alone: the save goes on to the missing-password box.
\<close>

theorem saveSettings_key_unchanged_counterexample:
  "\<not> anyEdit (ex_widget True (ex_password LeaveOrRemove False 4 True) AddNew AddNew
        (Some \<lparr>keys = [1, 2], challengeResponseKeys = []\<rparr>))
   \<and> key (m_db (ex_widget True (ex_password LeaveOrRemove False 4 True) AddNew AddNew
        (Some \<lparr>keys = [1, 2], challengeResponseKeys = []\<rparr>)))
       = Some \<lparr>keys = [1, 2], challengeResponseKeys = []\<rparr>
   \<and> traceOf (saveSettings (ex_env 0 Cancel Cancel)
        (ex_widget True (ex_password LeaveOrRemove False 4 True) AddNew AddNew
           (Some \<lparr>keys = [1, 2], challengeResponseKeys = []\<rparr>)))
       = [Db_setKey \<lparr>keys = [1], challengeResponseKeys = []\<rparr> True False False,
          QuickUnlock_reset 99, Emit_editFinished True, Db_markAsModified]
   \<and> \<not> anyEdit (ex_widget False (ex_password AddNew True 0 True) AddNew LeaveOrRemove
        (Some \<lparr>keys = [], challengeResponseKeys = [3]\<rparr>))
   \<and> key (m_db (ex_widget False (ex_password AddNew True 0 True) AddNew LeaveOrRemove
        (Some \<lparr>keys = [], challengeResponseKeys = [3]\<rparr>)))
       = Some \<lparr>keys = [], challengeResponseKeys = [3]\<rparr>
   \<and> flagOf (saveSettings (ex_env 0 Cancel Cancel)
        (ex_widget False (ex_password AddNew True 0 True) AddNew LeaveOrRemove
           (Some \<lparr>keys = [], challengeResponseKeys = [3]\<rparr>))) = Some False
   \<and> traceOf (saveSettings (ex_env 0 Cancel Cancel)
        (ex_widget False (ex_password AddNew True 0 True) AddNew LeaveOrRemove
           (Some \<lparr>keys = [], challengeResponseKeys = [3]\<rparr>))) = [noPasswordBox]"
  by (simp add: anyEdit_def model_defs)

text \<open>
  Claim C2, amended. When no component shows the \<open>Edit\<close> page, the dirty flag is not
  already set, and the current key holds at least one factor key, \<^verbatim>\<open>saveSettings\<close>
  returns true and leaves the widget, the database and the log exactly as they were: no
  key is built and nothing is called. These three conditions are also necessary for the
  "Key unchanged" return.
\<close>

theorem saveSettings_key_unchanged:
  "(\<not> m_isDirty s \<and> \<not> anyEdit s \<and> key (m_db s) = Some k \<and> keys k \<noteq> [] \<longrightarrow>
      saveSettings env s = Returned (True, s))
   \<and> (keyUnchanged (updateDirty s) \<longleftrightarrow>
        \<not> m_isDirty s \<and> \<not> anyEdit s \<and> (\<exists>k. key (m_db s) = Some k \<and> keys k \<noteq> []))"
proof -
  have a: "\<not> m_isDirty s \<and> \<not> anyEdit s \<and> key (m_db s) = Some k \<and> keys k \<noteq> [] \<longrightarrow>
      saveSettings env s = Returned (True, s)"
    by (auto simp: saveSettings_def updateDirty_clean keyUnchanged_def)
  have b: "keyUnchanged (updateDirty s) \<longleftrightarrow>
        \<not> m_isDirty s \<and> \<not> anyEdit s \<and> (\<exists>k. key (m_db s) = Some k \<and> keys k \<noteq> [])"
    by (auto simp: keyUnchanged_def updateDirty_dirty updateDirty_fields anyEdit_def
        split: option.splits)
  show ?thesis using a b by blast
qed

theorem saveSettings_key_unchanged_witness:
  "\<not> m_isDirty (ex_widget False (ex_password LeaveOrRemove False 4 True) LeaveOrRemove AddNew
        (Some \<lparr>keys = [1, 2], challengeResponseKeys = []\<rparr>))
   \<and> \<not> anyEdit (ex_widget False (ex_password LeaveOrRemove False 4 True) LeaveOrRemove AddNew
        (Some \<lparr>keys = [1, 2], challengeResponseKeys = []\<rparr>))
   \<and> key (m_db (ex_widget False (ex_password LeaveOrRemove False 4 True) LeaveOrRemove AddNew
        (Some \<lparr>keys = [1, 2], challengeResponseKeys = []\<rparr>)))
       = Some \<lparr>keys = [1, 2], challengeResponseKeys = []\<rparr>
   \<and> keys \<lparr>keys = [1, 2], challengeResponseKeys = []\<rparr> \<noteq> []
   \<and> saveSettings (ex_env 0 Cancel Cancel)
        (ex_widget False (ex_password LeaveOrRemove False 4 True) LeaveOrRemove AddNew
           (Some \<lparr>keys = [1, 2], challengeResponseKeys = []\<rparr>))
       = Returned (True,
           ex_widget False (ex_password LeaveOrRemove False 4 True) LeaveOrRemove AddNew
             (Some \<lparr>keys = [1, 2], challengeResponseKeys = []\<rparr>))"
proof -
  let ?S = "ex_widget False (ex_password LeaveOrRemove False 4 True) LeaveOrRemove AddNew
        (Some \<lparr>keys = [1, 2], challengeResponseKeys = []\<rparr>)"
  have h: "\<not> m_isDirty ?S" "\<not> anyEdit ?S"
    "key (m_db ?S) = Some \<lparr>keys = [1, 2], challengeResponseKeys = []\<rparr>"
    "keys \<lparr>keys = [1, 2], challengeResponseKeys = []\<rparr> \<noteq> []"
    by (simp_all add: anyEdit_def ex_widget_def ex_password_def ex_component_def)
  show ?thesis
    using h saveSettings_key_unchanged
      [where s = ?S and k = "\<lparr>keys = [1, 2], challengeResponseKeys = []\<rparr>"
         and env = "ex_env 0 Cancel Cancel"]
    by blast
qed

section \<open>C3: the minimum password quality\<close>

text \<open>
  Claim C3 as stated fails. The password component is on \<open>Edit\<close> with a non-empty password
  of quality 0 under a configured minimum of 2, but its validation fails: the save returns
  false with the component's "Failed to change database credentials" error, and the
  "Weak password" rejection is not reported.
\<close>

theorem saveSettings_minimum_quality_counterexample:
  "visiblePage (m_passwordEditWidget
       (ex_widget False (ex_password Edit False 0 False) AddNew AddNew
          (Some \<lparr>keys = [1], challengeResponseKeys = []\<rparr>))) = Edit
   \<and> \<not> isEmpty (m_passwordEditWidget
       (ex_widget False (ex_password Edit False 0 False) AddNew AddNew
          (Some \<lparr>keys = [1], challengeResponseKeys = []\<rparr>)))
   \<and> getPasswordQuality (m_passwordEditWidget
       (ex_widget False (ex_password Edit False 0 False) AddNew AddNew
          (Some \<lparr>keys = [1], challengeResponseKeys = []\<rparr>)))
       < qBound 0 (Security_DatabasePasswordMinimumQuality (ex_env 2 Cancel Cancel)) 4
   \<and> flagOf (saveSettings (ex_env 2 Cancel Cancel)
       (ex_widget False (ex_password Edit False 0 False) AddNew AddNew
          (Some \<lparr>keys = [1], challengeResponseKeys = []\<rparr>))) = Some False
   \<and> traceOf (saveSettings (ex_env 2 Cancel Cancel)
       (ex_widget False (ex_password Edit False 0 False) AddNew AddNew
          (Some \<lparr>keys = [1], challengeResponseKeys = []\<rparr>)))
       = [MessageBox_critical ''Failed to change database credentials''
            ''Passwords do not match.'' [Ok] NoButton]
   \<and> weakPasswordCritical \<notin> set (traceOf (saveSettings (ex_env 2 Cancel Cancel)
       (ex_widget False (ex_password Edit False 0 False) AddNew AddNew
          (Some \<lparr>keys = [1], challengeResponseKeys = []\<rparr>))))"
  by (simp add: model_defs weakPasswordCritical_def)

text \<open>
  Claim C3, amended. On a database that holds a composite-key object, when the password
  component is on \<open>Edit\<close> with a non-empty password whose quality is below the configured
  minimum clamped into 0..4, \<^verbatim>\<open>saveSettings\<close> returns false whatever the dialogs would
  answer, and the database is unchanged. The one dialog it shows is the "Weak password"
  rejection when the component validates and contributes its key, and the component's
  "Failed to change database credentials" error otherwise.
\<close>

theorem saveSettings_minimum_quality:
  "(key (m_db s) = Some k
      \<and> visiblePage (m_passwordEditWidget s) = Edit
      \<and> \<not> isEmpty (m_passwordEditWidget s)
      \<and> getPasswordQuality (m_passwordEditWidget s)
           < qBound 0 (Security_DatabasePasswordMinimumQuality env) 4 \<longrightarrow>
      (\<exists>s'. saveSettings env s = Returned (False, s')
         \<and> m_db s' = m_db s
         \<and> newEvents s s' =
             (if fst (validate (m_passwordEditWidget s) ''Unknown error'')
                 \<and> fst (widget_addToCompositeKey (m_passwordEditWidget s) CompositeKey_create
                          (store s))
              then [weakPasswordCritical]
              else [failedToChange (snd (validate (m_passwordEditWidget s) ''Unknown error''))])))
   \<and> 0 \<le> qBound 0 v 4 \<and> qBound 0 v 4 \<le> 4"
proof -
  have "\<exists>s'. saveSettings env s = Returned (False, s')
         \<and> m_db s' = m_db s
         \<and> newEvents s s' =
             (if fst (validate (m_passwordEditWidget s) ''Unknown error'')
                 \<and> fst (widget_addToCompositeKey (m_passwordEditWidget s) CompositeKey_create
                          (store s))
              then [weakPasswordCritical]
              else [failedToChange (snd (validate (m_passwordEditWidget s) ''Unknown error''))])"
    if h: "key (m_db s) = Some k" "visiblePage (m_passwordEditWidget s) = Edit"
      "\<not> isEmpty (m_passwordEditWidget s)"
      "getPasswordQuality (m_passwordEditWidget s)
           < qBound 0 (Security_DatabasePasswordMinimumQuality env) 4"
  proof -
    obtain valid error where v: "validate (m_passwordEditWidget s) ''Unknown error'' = (valid, error)"
      by (cases "validate (m_passwordEditWidget s) ''Unknown error''")
    obtain added k1 st1 where
      w: "widget_addToCompositeKey (m_passwordEditWidget s) CompositeKey_create (store s)
            = (added, k1, st1)"
      by (cases "widget_addToCompositeKey (m_passwordEditWidget s) CompositeKey_create (store s)")
    show ?thesis
      unfolding saveSettings_dirty_Edit [OF h(2) h(1)]
      using h v w
      by (cases "snapshotKeys (store s) (keys k) (None, None)")
        (simp add: assembleNewKey_def passwordStep_def qualityStep_def addToCompositeKey_def
          updateDirty_fields Let_def logCall_def newEvents_def)
  qed
  then show ?thesis using qBound_range by blast
qed

theorem saveSettings_minimum_quality_witness:
  "key (m_db (ex_widget False (ex_password Edit False 0 True) AddNew AddNew
          (Some \<lparr>keys = [1], challengeResponseKeys = []\<rparr>)))
     = Some \<lparr>keys = [1], challengeResponseKeys = []\<rparr>
   \<and> visiblePage (m_passwordEditWidget
       (ex_widget False (ex_password Edit False 0 True) AddNew AddNew
          (Some \<lparr>keys = [1], challengeResponseKeys = []\<rparr>))) = Edit
   \<and> \<not> isEmpty (m_passwordEditWidget
       (ex_widget False (ex_password Edit False 0 True) AddNew AddNew
          (Some \<lparr>keys = [1], challengeResponseKeys = []\<rparr>)))
   \<and> getPasswordQuality (m_passwordEditWidget
       (ex_widget False (ex_password Edit False 0 True) AddNew AddNew
          (Some \<lparr>keys = [1], challengeResponseKeys = []\<rparr>)))
       < qBound 0 (Security_DatabasePasswordMinimumQuality
           (ex_env 2 ContinueWithoutPassword ContinueWithWeakPass)) 4
   \<and> (\<exists>s'. saveSettings (ex_env 2 ContinueWithoutPassword ContinueWithWeakPass)
          (ex_widget False (ex_password Edit False 0 True) AddNew AddNew
             (Some \<lparr>keys = [1], challengeResponseKeys = []\<rparr>)) = Returned (False, s')
        \<and> key (m_db s') = Some \<lparr>keys = [1], challengeResponseKeys = []\<rparr>
        \<and> newEvents (ex_widget False (ex_password Edit False 0 True) AddNew AddNew
             (Some \<lparr>keys = [1], challengeResponseKeys = []\<rparr>)) s' = [weakPasswordCritical])"
proof -
  let ?S = "ex_widget False (ex_password Edit False 0 True) AddNew AddNew
          (Some \<lparr>keys = [1], challengeResponseKeys = []\<rparr>)"
  let ?E = "ex_env 2 ContinueWithoutPassword ContinueWithWeakPass"
  have h: "key (m_db ?S) = Some \<lparr>keys = [1], challengeResponseKeys = []\<rparr>"
    "visiblePage (m_passwordEditWidget ?S) = Edit"
    "\<not> isEmpty (m_passwordEditWidget ?S)"
    "getPasswordQuality (m_passwordEditWidget ?S)
       < qBound 0 (Security_DatabasePasswordMinimumQuality ?E) 4"
    by (simp_all add: ex_widget_def ex_password_def ex_env_def qBound_def)
  have v: "fst (validate (m_passwordEditWidget ?S) ''Unknown error'')
      \<and> fst (widget_addToCompositeKey (m_passwordEditWidget ?S) CompositeKey_create (store ?S))"
    by (simp add: ex_widget_def ex_password_def)
  have "\<exists>s'. saveSettings ?E ?S = Returned (False, s')
         \<and> m_db s' = m_db ?S
         \<and> newEvents ?S s' =
             (if fst (validate (m_passwordEditWidget ?S) ''Unknown error'')
                 \<and> fst (widget_addToCompositeKey (m_passwordEditWidget ?S) CompositeKey_create
                          (store ?S))
              then [weakPasswordCritical]
              else [failedToChange (snd (validate (m_passwordEditWidget ?S) ''Unknown error''))])"
    using h saveSettings_minimum_quality
      [where s = ?S and env = ?E and k = "\<lparr>keys = [1], challengeResponseKeys = []\<rparr>"
         and v = 2]
    by blast
  then obtain t where t: "saveSettings ?E ?S = Returned (False, t)" "m_db t = m_db ?S"
    "newEvents ?S t =
             (if fst (validate (m_passwordEditWidget ?S) ''Unknown error'')
                 \<and> fst (widget_addToCompositeKey (m_passwordEditWidget ?S) CompositeKey_create
                          (store ?S))
              then [weakPasswordCritical]
              else [failedToChange (snd (validate (m_passwordEditWidget ?S) ''Unknown error''))])"
    by blast
  have n: "newEvents ?S t = [weakPasswordCritical]"
    using t(3) v by simp
  have d: "key (m_db t) = Some \<lparr>keys = [1], challengeResponseKeys = []\<rparr>"
    using t(2) h(1) by simp
  show ?thesis using h t(1) n d by blast
qed

section \<open>C4: the missing-password confirmation\<close>

text \<open>
  Claim C4 as stated fails. The password component is on \<open>AddNew\<close>, the current key holds a
  file key and nothing is dirty: the save takes the "Key unchanged" return and shows no
  confirmation.
\<close>

theorem saveSettings_no_password_confirmation_counterexample:
  "visiblePage (m_passwordEditWidget
       (ex_widget False (ex_password AddNew True 0 True) LeaveOrRemove AddNew
          (Some \<lparr>keys = [2], challengeResponseKeys = []\<rparr>))) = AddNew
   \<and> isEmpty (m_passwordEditWidget
       (ex_widget False (ex_password AddNew True 0 True) LeaveOrRemove AddNew
          (Some \<lparr>keys = [2], challengeResponseKeys = []\<rparr>)))
   \<and> noPassword_clickedButton (ex_env 0 Cancel Cancel) \<noteq> ContinueWithoutPassword
   \<and> flagOf (saveSettings (ex_env 0 Cancel Cancel)
       (ex_widget False (ex_password AddNew True 0 True) LeaveOrRemove AddNew
          (Some \<lparr>keys = [2], challengeResponseKeys = []\<rparr>))) = Some True
   \<and> traceOf (saveSettings (ex_env 0 Cancel Cancel)
       (ex_widget False (ex_password AddNew True 0 True) LeaveOrRemove AddNew
          (Some \<lparr>keys = [2], challengeResponseKeys = []\<rparr>))) = []"
  by (simp add: model_defs)

text \<open>
  Claim C4, amended. On a database that holds a composite-key object, for a save that does
  not take the "Key unchanged" return and whose password component is on \<open>AddNew\<close> or has
  an empty input: the "No password set" box, with Cancel as its default button, is the
  first thing shown. When the button clicked is not "Continue without password" the save
  returns false there and the database is unchanged. When it is, the password block adds
  nothing to the new key and the save goes on with the blocks that follow; a save that
  returns true has had that button clicked.
\<close>

theorem saveSettings_no_password_confirmation:
  "key (m_db s) = Some k \<and> \<not> keyUnchanged (updateDirty s)
     \<and> (visiblePage (m_passwordEditWidget s) = AddNew \<or> isEmpty (m_passwordEditWidget s)) \<longrightarrow>
   noPasswordBox = QMessageBox_exec ''No password set'' [ContinueWithoutPassword, Cancel] Cancel
   \<and> (noPassword_clickedButton env \<noteq> ContinueWithoutPassword \<longrightarrow>
        saveSettings env s = Returned (False, logCall noPasswordBox (updateDirty s))
        \<and> m_db (logCall noPasswordBox (updateDirty s)) = m_db s)
   \<and> (noPassword_clickedButton env = ContinueWithoutPassword \<longrightarrow>
        passwordStep env oldPasswordKey newKey (updateDirty s)
          = Inr (newKey, logCall noPasswordBox (updateDirty s))
        \<and> saveSettings env s =
            afterPassword env (snd (snapshotKeys (store s) (keys k) (None, None)))
              (snapshotChallengeResponse (store s) (challengeResponseKeys k) None)
              CompositeKey_create (logCall noPasswordBox (updateDirty s)))
   \<and> (saveSettings env s = Returned (b, s') \<longrightarrow>
        take 1 (newEvents s s') = [noPasswordBox]
        \<and> (b \<longrightarrow> noPassword_clickedButton env = ContinueWithoutPassword))"
proof
  assume h: "key (m_db s) = Some k \<and> \<not> keyUnchanged (updateDirty s)
     \<and> (visiblePage (m_passwordEditWidget s) = AddNew \<or> isEmpty (m_passwordEditWidget s))"
  let ?s1 = "updateDirty s"
  let ?sp = "logCall noPasswordBox ?s1"
  let ?f = "snd (snapshotKeys (store s) (keys k) (None, None))"
  let ?c = "snapshotChallengeResponse (store s) (challengeResponseKeys k) None"
  have pw: "visiblePage (m_passwordEditWidget ?s1) = AddNew \<or> isEmpty (m_passwordEditWidget ?s1)"
    using h by (simp add: updateDirty_fields)
  have step: "passwordStep env old nk ?s1 =
      (if noPassword_clickedButton env \<noteq> ContinueWithoutPassword
       then Inl (Returned (False, ?sp)) else Inr (nk, ?sp))" for old nk
    using pw unfolding passwordStep_def by (simp add: Let_def)
  have blocks: "saveSettings env s =
      (if noPassword_clickedButton env \<noteq> ContinueWithoutPassword
       then Returned (False, ?sp) else afterPassword env ?f ?c CompositeKey_create ?sp)"
    using h saveSettings_blocks [of s k env] by (simp add: step)
  have db: "m_db ?sp = m_db s" by (simp add: logCall_def updateDirty_fields)
  have tr: "trace ?sp = trace s @ [noPasswordBox]" by (simp add: logCall_def updateDirty_fields)
  have box: "noPasswordBox
      = QMessageBox_exec ''No password set'' [ContinueWithoutPassword, Cancel] Cancel"
    by (simp add: noPasswordBox_def)
  have declined: "noPassword_clickedButton env \<noteq> ContinueWithoutPassword \<longrightarrow>
        saveSettings env s = Returned (False, ?sp) \<and> m_db ?sp = m_db s"
    using blocks db by simp
  have accepted: "noPassword_clickedButton env = ContinueWithoutPassword \<longrightarrow>
        passwordStep env oldPasswordKey newKey ?s1 = Inr (newKey, ?sp)
        \<and> saveSettings env s = afterPassword env ?f ?c CompositeKey_create ?sp"
    using blocks step by simp
  have surfaced: "saveSettings env s = Returned (b, s') \<longrightarrow>
        take 1 (newEvents s s') = [noPasswordBox]
        \<and> (b \<longrightarrow> noPassword_clickedButton env = ContinueWithoutPassword)"
  proof
    assume r: "saveSettings env s = Returned (b, s')"
    show "take 1 (newEvents s s') = [noPasswordBox]
        \<and> (b \<longrightarrow> noPassword_clickedButton env = ContinueWithoutPassword)"
    proof (cases "noPassword_clickedButton env = ContinueWithoutPassword")
      case True
      then have "afterPassword env ?f ?c CompositeKey_create ?sp = Returned (b, s')"
        using blocks r by simp
      then obtain es where "trace s' = trace ?sp @ es"
        using afterPassword_trace by blast
      then show ?thesis using True tr by (simp add: newEvents_def)
    next
      case False
      then have "Returned (b, s') = Returned (False, ?sp)" using blocks r by simp
      then show ?thesis using False tr by (simp add: newEvents_def)
    qed
  qed
  show "noPasswordBox = QMessageBox_exec ''No password set'' [ContinueWithoutPassword, Cancel] Cancel
   \<and> (noPassword_clickedButton env \<noteq> ContinueWithoutPassword \<longrightarrow>
        saveSettings env s = Returned (False, logCall noPasswordBox (updateDirty s))
        \<and> m_db (logCall noPasswordBox (updateDirty s)) = m_db s)
   \<and> (noPassword_clickedButton env = ContinueWithoutPassword \<longrightarrow>
        passwordStep env oldPasswordKey newKey (updateDirty s)
          = Inr (newKey, logCall noPasswordBox (updateDirty s))
        \<and> saveSettings env s =
            afterPassword env (snd (snapshotKeys (store s) (keys k) (None, None)))
              (snapshotChallengeResponse (store s) (challengeResponseKeys k) None)
              CompositeKey_create (logCall noPasswordBox (updateDirty s)))
   \<and> (saveSettings env s = Returned (b, s') \<longrightarrow>
        take 1 (newEvents s s') = [noPasswordBox]
        \<and> (b \<longrightarrow> noPassword_clickedButton env = ContinueWithoutPassword))"
    using box declined accepted surfaced by blast
qed

theorem saveSettings_no_password_confirmation_witness:
  "key (m_db (ex_widget False (ex_password Edit True 0 True) AddNew AddNew
          (Some \<lparr>keys = [1], challengeResponseKeys = []\<rparr>)))
     = Some \<lparr>keys = [1], challengeResponseKeys = []\<rparr>
   \<and> \<not> keyUnchanged (updateDirty (ex_widget False (ex_password Edit True 0 True) AddNew AddNew
          (Some \<lparr>keys = [1], challengeResponseKeys = []\<rparr>)))
   \<and> isEmpty (m_passwordEditWidget (ex_widget False (ex_password Edit True 0 True) AddNew AddNew
          (Some \<lparr>keys = [1], challengeResponseKeys = []\<rparr>)))
   \<and> noPassword_clickedButton (ex_env 0 Cancel Cancel) \<noteq> ContinueWithoutPassword
   \<and> saveSettings (ex_env 0 Cancel Cancel)
        (ex_widget False (ex_password Edit True 0 True) AddNew AddNew
          (Some \<lparr>keys = [1], challengeResponseKeys = []\<rparr>))
       = Returned (False, logCall noPasswordBox (updateDirty
           (ex_widget False (ex_password Edit True 0 True) AddNew AddNew
              (Some \<lparr>keys = [1], challengeResponseKeys = []\<rparr>))))
   \<and> key (m_db (logCall noPasswordBox (updateDirty
           (ex_widget False (ex_password Edit True 0 True) AddNew AddNew
              (Some \<lparr>keys = [1], challengeResponseKeys = []\<rparr>)))))
       = Some \<lparr>keys = [1], challengeResponseKeys = []\<rparr>
   \<and> key (m_db (ex_widget True (ex_password AddNew True 0 True) LeaveOrRemove AddNew
          (Some \<lparr>keys = [2], challengeResponseKeys = []\<rparr>)))
     = Some \<lparr>keys = [2], challengeResponseKeys = []\<rparr>
   \<and> \<not> keyUnchanged (updateDirty
        (ex_widget True (ex_password AddNew True 0 True) LeaveOrRemove AddNew
          (Some \<lparr>keys = [2], challengeResponseKeys = []\<rparr>)))
   \<and> visiblePage (m_passwordEditWidget
        (ex_widget True (ex_password AddNew True 0 True) LeaveOrRemove AddNew
          (Some \<lparr>keys = [2], challengeResponseKeys = []\<rparr>))) = AddNew
   \<and> (\<exists>s'. saveSettings (ex_env 0 ContinueWithoutPassword Cancel)
          (ex_widget True (ex_password AddNew True 0 True) LeaveOrRemove AddNew
             (Some \<lparr>keys = [2], challengeResponseKeys = []\<rparr>)) = Returned (True, s')
        \<and> take 1 (newEvents
             (ex_widget True (ex_password AddNew True 0 True) LeaveOrRemove AddNew
                (Some \<lparr>keys = [2], challengeResponseKeys = []\<rparr>)) s') = [noPasswordBox]
        \<and> noPassword_clickedButton (ex_env 0 ContinueWithoutPassword Cancel)
            = ContinueWithoutPassword)"
proof -
  let ?Z = "ex_widget False (ex_password Edit True 0 True) AddNew AddNew
          (Some \<lparr>keys = [1], challengeResponseKeys = []\<rparr>)"
  let ?Y = "ex_widget True (ex_password AddNew True 0 True) LeaveOrRemove AddNew
          (Some \<lparr>keys = [2], challengeResponseKeys = []\<rparr>)"
  have hz: "key (m_db ?Z) = Some \<lparr>keys = [1], challengeResponseKeys = []\<rparr>"
    "\<not> keyUnchanged (updateDirty ?Z)" "isEmpty (m_passwordEditWidget ?Z)"
    "noPassword_clickedButton (ex_env 0 Cancel Cancel) \<noteq> ContinueWithoutPassword"
    by (simp_all add: model_defs)
  have pz: "saveSettings (ex_env 0 Cancel Cancel) ?Z
       = Returned (False, logCall noPasswordBox (updateDirty ?Z))
     \<and> m_db (logCall noPasswordBox (updateDirty ?Z)) = m_db ?Z"
    using hz saveSettings_no_password_confirmation
      [where s = ?Z and k = "\<lparr>keys = [1], challengeResponseKeys = []\<rparr>"
         and env = "ex_env 0 Cancel Cancel"]
    by blast
  have hy: "key (m_db ?Y) = Some \<lparr>keys = [2], challengeResponseKeys = []\<rparr>"
    "\<not> keyUnchanged (updateDirty ?Y)" "visiblePage (m_passwordEditWidget ?Y) = AddNew"
    by (simp_all add: model_defs)
  have "\<exists>s'. saveSettings (ex_env 0 ContinueWithoutPassword Cancel) ?Y = Returned (True, s')"
    by (simp add: model_defs)
  then obtain y where y: "saveSettings (ex_env 0 ContinueWithoutPassword Cancel) ?Y
      = Returned (True, y)" by blast
  have py: "take 1 (newEvents ?Y y) = [noPasswordBox]
      \<and> noPassword_clickedButton (ex_env 0 ContinueWithoutPassword Cancel)
          = ContinueWithoutPassword"
    using hy y saveSettings_no_password_confirmation
      [where s = ?Y and k = "\<lparr>keys = [2], challengeResponseKeys = []\<rparr>"
         and env = "ex_env 0 ContinueWithoutPassword Cancel" and b = True and s' = y]
    by blast
  show ?thesis using hz pz hy y py by (metis (no_types, lifting))
qed

section \<open>C5: the weak-password warning\<close>

text \<open>
  Claim C5 as stated fails. A non-empty password of quality 2 is supplied, at or above
  the minimum 0 and below Good, and the user would choose to continue, but the password
  component fails its validation: the save returns false with the component's error and
  the warning is never shown.
\<close>

theorem saveSettings_weak_password_warning_counterexample:
  "visiblePage (m_passwordEditWidget
       (ex_widget False (ex_password Edit False 2 False) AddNew AddNew
          (Some \<lparr>keys = [1], challengeResponseKeys = []\<rparr>))) = Edit
   \<and> \<not> isEmpty (m_passwordEditWidget
       (ex_widget False (ex_password Edit False 2 False) AddNew AddNew
          (Some \<lparr>keys = [1], challengeResponseKeys = []\<rparr>)))
   \<and> qBound 0 (Security_DatabasePasswordMinimumQuality (ex_env 0 Cancel ContinueWithWeakPass)) 4
       \<le> getPasswordQuality (m_passwordEditWidget
            (ex_widget False (ex_password Edit False 2 False) AddNew AddNew
               (Some \<lparr>keys = [1], challengeResponseKeys = []\<rparr>)))
   \<and> getPasswordQuality (m_passwordEditWidget
       (ex_widget False (ex_password Edit False 2 False) AddNew AddNew
          (Some \<lparr>keys = [1], challengeResponseKeys = []\<rparr>)))
       < Quality_Good (ex_env 0 Cancel ContinueWithWeakPass)
   \<and> weakPassword_dialogResult (ex_env 0 Cancel ContinueWithWeakPass) = ContinueWithWeakPass
   \<and> flagOf (saveSettings (ex_env 0 Cancel ContinueWithWeakPass)
       (ex_widget False (ex_password Edit False 2 False) AddNew AddNew
          (Some \<lparr>keys = [1], challengeResponseKeys = []\<rparr>))) = Some False
   \<and> traceOf (saveSettings (ex_env 0 Cancel ContinueWithWeakPass)
       (ex_widget False (ex_password Edit False 2 False) AddNew AddNew
          (Some \<lparr>keys = [1], challengeResponseKeys = []\<rparr>)))
       = [MessageBox_critical ''Failed to change database credentials''
            ''Passwords do not match.'' [Ok] NoButton]
   \<and> weakPasswordWarning \<notin> set (traceOf (saveSettings (ex_env 0 Cancel ContinueWithWeakPass)
       (ex_widget False (ex_password Edit False 2 False) AddNew AddNew
          (Some \<lparr>keys = [1], challengeResponseKeys = []\<rparr>))))"
  by (simp add: model_defs weakPasswordWarning_def)

text \<open>
  Claim C5, amended. On a database that holds a composite-key object, when the password
  component is on \<open>Edit\<close> with a non-empty password, validates and contributes its key,
  and the quality is at or above the clamped minimum and below Good: the weak-password
  warning, with the buttons "Continue with weak password" and Cancel, is the first thing
  shown. On Cancel the save returns false there and the database is unchanged; on any
  other answer, which for this box is "Continue with weak password", the save goes on to
  the key file and challenge-response components and the commit.
\<close>

theorem saveSettings_weak_password_warning:
  "key (m_db s) = Some k
     \<and> visiblePage (m_passwordEditWidget s) = Edit
     \<and> \<not> isEmpty (m_passwordEditWidget s)
     \<and> validate (m_passwordEditWidget s) ''Unknown error'' = (True, e)
     \<and> widget_addToCompositeKey (m_passwordEditWidget s) CompositeKey_create (store s)
         = (True, k1, st1)
     \<and> qBound 0 (Security_DatabasePasswordMinimumQuality env) 4
         \<le> getPasswordQuality (m_passwordEditWidget s)
     \<and> getPasswordQuality (m_passwordEditWidget s) < Quality_Good env \<longrightarrow>
   weakPasswordWarning
     = MessageBox_warning ''Weak password''
         ''This is a weak password! For better protection of your secrets, you should choose a stronger password.''
         [ContinueWithWeakPass, Cancel] Cancel
   \<and> (weakPassword_dialogResult env = Cancel \<longrightarrow>
        saveSettings env s
          = Returned (False, logCall weakPasswordWarning ((updateDirty s)\<lparr>store := st1\<rparr>))
        \<and> m_db (logCall weakPasswordWarning ((updateDirty s)\<lparr>store := st1\<rparr>)) = m_db s)
   \<and> (weakPassword_dialogResult env \<noteq> Cancel \<longrightarrow>
        qualityStep env k1 ((updateDirty s)\<lparr>store := st1\<rparr>)
          = Inr (k1, logCall weakPasswordWarning ((updateDirty s)\<lparr>store := st1\<rparr>))
        \<and> saveSettings env s =
            afterQuality (snd (snapshotKeys (store s) (keys k) (None, None)))
              (snapshotChallengeResponse (store s) (challengeResponseKeys k) None)
              k1 (logCall weakPasswordWarning ((updateDirty s)\<lparr>store := st1\<rparr>)))
   \<and> (saveSettings env s = Returned (b, s') \<longrightarrow>
        take 1 (newEvents s s') = [weakPasswordWarning])"
proof
  assume h: "key (m_db s) = Some k
     \<and> visiblePage (m_passwordEditWidget s) = Edit
     \<and> \<not> isEmpty (m_passwordEditWidget s)
     \<and> validate (m_passwordEditWidget s) ''Unknown error'' = (True, e)
     \<and> widget_addToCompositeKey (m_passwordEditWidget s) CompositeKey_create (store s)
         = (True, k1, st1)
     \<and> qBound 0 (Security_DatabasePasswordMinimumQuality env) 4
         \<le> getPasswordQuality (m_passwordEditWidget s)
     \<and> getPasswordQuality (m_passwordEditWidget s) < Quality_Good env"
  let ?s1 = "updateDirty s"
  let ?s2 = "?s1\<lparr>store := st1\<rparr>"
  let ?sw = "logCall weakPasswordWarning ?s2"
  let ?f = "snd (snapshotKeys (store s) (keys k) (None, None))"
  let ?c = "snapshotChallengeResponse (store s) (challengeResponseKeys k) None"
  have nk: "\<not> keyUnchanged ?s1"
    using h by (simp add: keyUnchanged_def updateDirty_dirty updateDirty_fields)
  have pstep: "passwordStep env old CompositeKey_create ?s1 = Inr (k1, ?s2)" for old
    using h unfolding passwordStep_def addToCompositeKey_def
    by (simp add: updateDirty_fields)
  have qstep: "qualityStep env k1 ?s2 =
      (if weakPassword_dialogResult env = Cancel then Inl (Returned (False, ?sw))
       else Inr (k1, ?sw))"
    using h unfolding qualityStep_def by (simp add: Let_def updateDirty_fields)
  have blocks: "saveSettings env s =
      (if weakPassword_dialogResult env = Cancel then Returned (False, ?sw)
       else afterQuality ?f ?c k1 ?sw)"
    using h nk saveSettings_blocks [of s k env]
    by (simp add: pstep afterPassword_def qstep)
  have db: "m_db ?sw = m_db s" by (simp add: logCall_def updateDirty_fields)
  have tr: "trace ?sw = trace s @ [weakPasswordWarning]"
    by (simp add: logCall_def updateDirty_fields)
  have box: "weakPasswordWarning
     = MessageBox_warning ''Weak password''
         ''This is a weak password! For better protection of your secrets, you should choose a stronger password.''
         [ContinueWithWeakPass, Cancel] Cancel"
    by (simp add: weakPasswordWarning_def)
  have cancelled: "weakPassword_dialogResult env = Cancel \<longrightarrow>
        saveSettings env s = Returned (False, ?sw) \<and> m_db ?sw = m_db s"
    using blocks db by simp
  have continued: "weakPassword_dialogResult env \<noteq> Cancel \<longrightarrow>
        qualityStep env k1 ?s2 = Inr (k1, ?sw)
        \<and> saveSettings env s = afterQuality ?f ?c k1 ?sw"
    using blocks qstep by simp
  have surfaced: "saveSettings env s = Returned (b, s') \<longrightarrow>
        take 1 (newEvents s s') = [weakPasswordWarning]"
  proof
    assume r: "saveSettings env s = Returned (b, s')"
    show "take 1 (newEvents s s') = [weakPasswordWarning]"
    proof (cases "weakPassword_dialogResult env = Cancel")
      case True
      then have "Returned (b, s') = Returned (False, ?sw)" using blocks r by simp
      then show ?thesis using tr by (simp add: newEvents_def)
    next
      case False
      then have "afterQuality ?f ?c k1 ?sw = Returned (b, s')" using blocks r by simp
      then obtain es where "trace s' = trace ?sw @ es" using afterQuality_trace by blast
      then show ?thesis using tr by (simp add: newEvents_def)
    qed
  qed
  show "weakPasswordWarning
     = MessageBox_warning ''Weak password''
         ''This is a weak password! For better protection of your secrets, you should choose a stronger password.''
         [ContinueWithWeakPass, Cancel] Cancel
   \<and> (weakPassword_dialogResult env = Cancel \<longrightarrow>
        saveSettings env s
          = Returned (False, logCall weakPasswordWarning ((updateDirty s)\<lparr>store := st1\<rparr>))
        \<and> m_db (logCall weakPasswordWarning ((updateDirty s)\<lparr>store := st1\<rparr>)) = m_db s)
   \<and> (weakPassword_dialogResult env \<noteq> Cancel \<longrightarrow>
        qualityStep env k1 ((updateDirty s)\<lparr>store := st1\<rparr>)
          = Inr (k1, logCall weakPasswordWarning ((updateDirty s)\<lparr>store := st1\<rparr>))
        \<and> saveSettings env s =
            afterQuality (snd (snapshotKeys (store s) (keys k) (None, None)))
              (snapshotChallengeResponse (store s) (challengeResponseKeys k) None)
              k1 (logCall weakPasswordWarning ((updateDirty s)\<lparr>store := st1\<rparr>)))
   \<and> (saveSettings env s = Returned (b, s') \<longrightarrow>
        take 1 (newEvents s s') = [weakPasswordWarning])"
    using box cancelled continued surfaced by blast
qed

theorem saveSettings_weak_password_warning_witness:
  "key (m_db (ex_widget False (ex_password Edit False 2 True) AddNew AddNew
          (Some \<lparr>keys = [1], challengeResponseKeys = []\<rparr>)))
     = Some \<lparr>keys = [1], challengeResponseKeys = []\<rparr>
   \<and> visiblePage (m_passwordEditWidget
       (ex_widget False (ex_password Edit False 2 True) AddNew AddNew
          (Some \<lparr>keys = [1], challengeResponseKeys = []\<rparr>))) = Edit
   \<and> \<not> isEmpty (m_passwordEditWidget
       (ex_widget False (ex_password Edit False 2 True) AddNew AddNew
          (Some \<lparr>keys = [1], challengeResponseKeys = []\<rparr>)))
   \<and> qBound 0 (Security_DatabasePasswordMinimumQuality (ex_env 0 Cancel Cancel)) 4
       \<le> getPasswordQuality (m_passwordEditWidget
            (ex_widget False (ex_password Edit False 2 True) AddNew AddNew
               (Some \<lparr>keys = [1], challengeResponseKeys = []\<rparr>)))
   \<and> getPasswordQuality (m_passwordEditWidget
       (ex_widget False (ex_password Edit False 2 True) AddNew AddNew
          (Some \<lparr>keys = [1], challengeResponseKeys = []\<rparr>)))
       < Quality_Good (ex_env 0 Cancel Cancel)
   \<and> flagOf (saveSettings (ex_env 0 Cancel Cancel)
       (ex_widget False (ex_password Edit False 2 True) AddNew AddNew
          (Some \<lparr>keys = [1], challengeResponseKeys = []\<rparr>))) = Some False
   \<and> traceOf (saveSettings (ex_env 0 Cancel Cancel)
       (ex_widget False (ex_password Edit False 2 True) AddNew AddNew
          (Some \<lparr>keys = [1], challengeResponseKeys = []\<rparr>))) = [weakPasswordWarning]
   \<and> (\<exists>s'. saveSettings (ex_env 0 Cancel ContinueWithWeakPass)
          (ex_widget False (ex_password Edit False 2 True) AddNew AddNew
             (Some \<lparr>keys = [1], challengeResponseKeys = []\<rparr>)) = Returned (True, s')
        \<and> take 1 (newEvents (ex_widget False (ex_password Edit False 2 True) AddNew AddNew
             (Some \<lparr>keys = [1], challengeResponseKeys = []\<rparr>)) s') = [weakPasswordWarning])"
proof -
  let ?S = "ex_widget False (ex_password Edit False 2 True) AddNew AddNew
          (Some \<lparr>keys = [1], challengeResponseKeys = []\<rparr>)"
  let ?K = "\<lparr>keys = [1], challengeResponseKeys = []\<rparr>"
  let ?k1 = "\<lparr>keys = [10], challengeResponseKeys = []\<rparr>"
  let ?st = "ex_store(10 := \<lparr>uuid = PasswordKey_UUID, rawKey = [7, 7]\<rparr>)"
  have h: "key (m_db ?S) = Some ?K" "visiblePage (m_passwordEditWidget ?S) = Edit"
    "\<not> isEmpty (m_passwordEditWidget ?S)"
    "validate (m_passwordEditWidget ?S) ''Unknown error'' = (True, ''Unknown error'')"
    "widget_addToCompositeKey (m_passwordEditWidget ?S) CompositeKey_create (store ?S)
       = (True, ?k1, ?st)"
    by (simp_all add: ex_widget_def ex_password_def CompositeKey_create_def addKey_def)
  have q: "qBound 0 (Security_DatabasePasswordMinimumQuality (ex_env 0 x y)) 4
       \<le> getPasswordQuality (m_passwordEditWidget ?S)"
    "getPasswordQuality (m_passwordEditWidget ?S) < Quality_Good (ex_env 0 x y)" for x y
    by (simp_all add: ex_widget_def ex_password_def ex_env_def qBound_def)
  have c: "weakPassword_dialogResult (ex_env 0 Cancel Cancel) = Cancel"
    by (simp add: ex_env_def)
  have pc: "saveSettings (ex_env 0 Cancel Cancel) ?S
      = Returned (False, logCall weakPasswordWarning ((updateDirty ?S)\<lparr>store := ?st\<rparr>))"
    using h q c saveSettings_weak_password_warning
      [where s = ?S and k = ?K and e = "''Unknown error''" and ?k1.0 = ?k1 and ?st1.0 = ?st
         and env = "ex_env 0 Cancel Cancel"]
    by blast
  have fc: "flagOf (saveSettings (ex_env 0 Cancel Cancel) ?S) = Some False"
    "traceOf (saveSettings (ex_env 0 Cancel Cancel) ?S) = [weakPasswordWarning]"
    unfolding pc by (simp_all add: flagOf_def traceOf_def logCall_def updateDirty_fields
        ex_widget_def)
  have "\<exists>s'. saveSettings (ex_env 0 Cancel ContinueWithWeakPass) ?S = Returned (True, s')"
    by (simp add: model_defs)
  then obtain t where t: "saveSettings (ex_env 0 Cancel ContinueWithWeakPass) ?S
      = Returned (True, t)" by blast
  have pt: "take 1 (newEvents ?S t) = [weakPasswordWarning]"
    using h q t saveSettings_weak_password_warning
      [where s = ?S and k = ?K and e = "''Unknown error''" and ?k1.0 = ?k1 and ?st1.0 = ?st
         and env = "ex_env 0 Cancel ContinueWithWeakPass" and b = True and s' = t]
    by blast
  show ?thesis using h(1-3) q fc t pt by (metis (no_types, lifting))
qed

section \<open>C6: unchanged components are carried over by reference\<close>

text \<open>
  Claim C6. For a component on the page \<open>LeaveOrRemove\<close> and a non-null old factor \<open>r\<close>,
  both overloads of \<^verbatim>\<open>addToCompositeKey\<close> return true and append the reference \<open>r\<close>
  itself to the new composite key (to the factor keys, or to the challenge-response
  factors); the widget, the key store and the log are unchanged, so no key is derived and
  the component's own \<^verbatim>\<open>addToCompositeKey\<close> is not run. The code tests the page only,
  so this holds whatever the added flag is, in particular when it is true. For a
  component on the page \<open>AddNew\<close> the composite key is returned as it was. The old factor
  passed in is found by type identifier: when the old key holds a key of the type, the
  snapshot loop returns a key of that list with that type identifier.
\<close>

theorem addToCompositeKey_carries_old_factor:
  "(visiblePage w = LeaveOrRemove \<longrightarrow>
      addToCompositeKey w newKey (Some r) s
        = Returned (True, newKey\<lparr>keys := keys newKey @ [r]\<rparr>, s)
      \<and> addToCompositeKey_CR w newKey (Some r) s
        = Returned (True, newKey\<lparr>challengeResponseKeys := challengeResponseKeys newKey @ [r]\<rparr>, s))
   \<and> (visiblePage w' = AddNew \<longrightarrow>
      addToCompositeKey w' newKey old s = Returned (True, newKey, s)
      \<and> addToCompositeKey_CR w' newKey old s = Returned (True, newKey, s))
   \<and> (kp \<in> set ks \<and> uuid (h kp) = PasswordKey_UUID \<longrightarrow>
        (\<exists>p. fst (snapshotKeys h ks (None, None)) = Some p \<and> p \<in> set ks
           \<and> uuid (h p) = PasswordKey_UUID))
   \<and> (kf \<in> set ks \<and> uuid (h kf) = FileKey_UUID \<longrightarrow>
        (\<exists>f. snd (snapshotKeys h ks (None, None)) = Some f \<and> f \<in> set ks
           \<and> uuid (h f) = FileKey_UUID))
   \<and> (kc \<in> set cs \<and> uuid (h kc) = ChallengeResponseKey_UUID \<longrightarrow>
        (\<exists>c. snapshotChallengeResponse h cs None = Some c \<and> c \<in> set cs
           \<and> uuid (h c) = ChallengeResponseKey_UUID))"
proof -
  have carry: "visiblePage w = LeaveOrRemove \<longrightarrow>
      addToCompositeKey w newKey (Some r) s
        = Returned (True, newKey\<lparr>keys := keys newKey @ [r]\<rparr>, s)
      \<and> addToCompositeKey_CR w newKey (Some r) s
        = Returned (True, newKey\<lparr>challengeResponseKeys := challengeResponseKeys newKey @ [r]\<rparr>, s)"
    by (simp add: addToCompositeKey_def addToCompositeKey_CR_def addKey_def
        addChallengeResponseKey_def)
  have addnew: "visiblePage w' = AddNew \<longrightarrow>
      addToCompositeKey w' newKey old s = Returned (True, newKey, s)
      \<and> addToCompositeKey_CR w' newKey old s = Returned (True, newKey, s)"
    by (simp add: addToCompositeKey_def addToCompositeKey_CR_def)
  show ?thesis
    using carry addnew snapshotKeys_password_found [of kp ks h None None]
      snapshotKeys_file_found [of kf ks h None None]
      snapshotChallengeResponse_found [of kc cs h None]
    by blast
qed

theorem addToCompositeKey_carries_old_factor_witness:
  "visiblePage (ex_component LeaveOrRemove) = LeaveOrRemove
   \<and> addToCompositeKey (ex_component LeaveOrRemove) CompositeKey_create (Some 2)
         (ex_widget True (ex_password LeaveOrRemove False 4 True) LeaveOrRemove AddNew
            (Some \<lparr>keys = [1, 2], challengeResponseKeys = [3]\<rparr>))
       = Returned (True, \<lparr>keys = [2], challengeResponseKeys = []\<rparr>,
           ex_widget True (ex_password LeaveOrRemove False 4 True) LeaveOrRemove AddNew
            (Some \<lparr>keys = [1, 2], challengeResponseKeys = [3]\<rparr>))
   \<and> visiblePage (ex_component AddNew) = AddNew
   \<and> addToCompositeKey (ex_component AddNew) CompositeKey_create None
         (ex_widget True (ex_password LeaveOrRemove False 4 True) LeaveOrRemove AddNew
            (Some \<lparr>keys = [1, 2], challengeResponseKeys = [3]\<rparr>))
       = Returned (True, \<lparr>keys = [], challengeResponseKeys = []\<rparr>,
           ex_widget True (ex_password LeaveOrRemove False 4 True) LeaveOrRemove AddNew
            (Some \<lparr>keys = [1, 2], challengeResponseKeys = [3]\<rparr>))
   \<and> (1::nat) \<in> set [1, 2] \<and> uuid (ex_store 1) = PasswordKey_UUID
   \<and> (2::nat) \<in> set [1, 2] \<and> uuid (ex_store 2) = FileKey_UUID
   \<and> (3::nat) \<in> set [3] \<and> uuid (ex_store 3) = ChallengeResponseKey_UUID
   \<and> (\<exists>p. fst (snapshotKeys ex_store [1, 2] (None, None)) = Some p \<and> p \<in> set [1, 2]
          \<and> uuid (ex_store p) = PasswordKey_UUID)
   \<and> (\<exists>f. snd (snapshotKeys ex_store [1, 2] (None, None)) = Some f \<and> f \<in> set [1, 2]
          \<and> uuid (ex_store f) = FileKey_UUID)
   \<and> (\<exists>c. snapshotChallengeResponse ex_store [3] None = Some c \<and> c \<in> set [3]
          \<and> uuid (ex_store c) = ChallengeResponseKey_UUID)
   \<and> traceOf (saveSettings (ex_env 0 Cancel Cancel)
         (ex_widget True (ex_password LeaveOrRemove False 4 True) AddNew AddNew
            (Some \<lparr>keys = [1, 2], challengeResponseKeys = []\<rparr>)))
       = [Db_setKey \<lparr>keys = [1], challengeResponseKeys = []\<rparr> True False False,
          QuickUnlock_reset 99, Emit_editFinished True, Db_markAsModified]"
proof -
  have hyps: "visiblePage (ex_component LeaveOrRemove) = LeaveOrRemove"
    "visiblePage (ex_component AddNew) = AddNew"
    "(1::nat) \<in> set [1, 2] \<and> uuid (ex_store 1) = PasswordKey_UUID"
    "(2::nat) \<in> set [1, 2] \<and> uuid (ex_store 2) = FileKey_UUID"
    "(3::nat) \<in> set [3] \<and> uuid (ex_store 3) = ChallengeResponseKey_UUID"
    by (simp_all add: ex_component_def ex_store_def)
  have run: "traceOf (saveSettings (ex_env 0 Cancel Cancel)
         (ex_widget True (ex_password LeaveOrRemove False 4 True) AddNew AddNew
            (Some \<lparr>keys = [1, 2], challengeResponseKeys = []\<rparr>)))
       = [Db_setKey \<lparr>keys = [1], challengeResponseKeys = []\<rparr> True False False,
          QuickUnlock_reset 99, Emit_editFinished True, Db_markAsModified]"
    by (simp add: model_defs)
  show ?thesis
    using hyps run addToCompositeKey_carries_old_factor
      [where w = "ex_component LeaveOrRemove" and w' = "ex_component AddNew"
         and newKey = CompositeKey_create and r = 2 and old = None
         and s = "ex_widget True (ex_password LeaveOrRemove False 4 True) LeaveOrRemove AddNew
            (Some \<lparr>keys = [1, 2], challengeResponseKeys = [3]\<rparr>)"
         and kp = 1 and kf = 2 and kc = 3 and ks = "[1, 2]" and cs = "[3]" and h = ex_store]
    by (simp add: CompositeKey_create_def)
qed

section \<open>C7: the commit\<close>

text \<open>
  Claim C7 as stated fails. With a current key of a password key and a file key, both
  components on \<open>LeaveOrRemove\<close>, and nothing dirty, the save takes the "Key unchanged"
  return of line 139: it returns true, yet \<^verbatim>\<open>setKey\<close> is not called, the quick-unlock
  reset is not invoked and \<^verbatim>\<open>editFinished(true)\<close> is not emitted; the log stays empty
  and the database is as it was.
\<close>

theorem saveSettings_commit_order_counterexample:
  "flagOf (saveSettings (ex_env 0 Cancel Cancel)
       (ex_widget False (ex_password LeaveOrRemove False 4 True) LeaveOrRemove AddNew
          (Some \<lparr>keys = [1, 2], challengeResponseKeys = []\<rparr>))) = Some True
   \<and> traceOf (saveSettings (ex_env 0 Cancel Cancel)
       (ex_widget False (ex_password LeaveOrRemove False 4 True) LeaveOrRemove AddNew
          (Some \<lparr>keys = [1, 2], challengeResponseKeys = []\<rparr>))) = []
   \<and> Emit_editFinished True \<notin> set (traceOf (saveSettings (ex_env 0 Cancel Cancel)
       (ex_widget False (ex_password LeaveOrRemove False 4 True) LeaveOrRemove AddNew
          (Some \<lparr>keys = [1, 2], challengeResponseKeys = []\<rparr>))))
   \<and> QuickUnlock_reset 99 \<notin> set (traceOf (saveSettings (ex_env 0 Cancel Cancel)
       (ex_widget False (ex_password LeaveOrRemove False 4 True) LeaveOrRemove AddNew
          (Some \<lparr>keys = [1, 2], challengeResponseKeys = []\<rparr>))))
   \<and> dbOf (saveSettings (ex_env 0 Cancel Cancel)
       (ex_widget False (ex_password LeaveOrRemove False 4 True) LeaveOrRemove AddNew
          (Some \<lparr>keys = [1, 2], challengeResponseKeys = []\<rparr>)))
       = Some \<lparr>key = Some \<lparr>keys = [1, 2], challengeResponseKeys = []\<rparr>, publicUuid = 99,
           modified = False\<rparr>"
  by (simp add: model_defs)

text \<open>
  Claim C7, amended. On every save that returns true without taking the "Key unchanged"
  return, the calls made to the database, the quick-unlock cache and the completion
  signal are, in this order and each once: \<^verbatim>\<open>setKey(newKey, true, false, false)\<close>, the
  quick-unlock reset for the public identifier of the database, \<^verbatim>\<open>editFinished(true)\<close>,
  and then \<^verbatim>\<open>markAsModified\<close> exactly when the dirty flag is set; the database holds the
  new key. On a save that returns true by the "Key unchanged" return nothing is called at
  all and the database is unchanged. On a save that returns false none of these calls is
  made (dialogs only) and the database is unchanged.
\<close>

theorem saveSettings_commit_order:
  "saveSettings env s = Returned (b, s') \<longrightarrow>
     (b \<and> \<not> keyUnchanged (updateDirty s) \<longrightarrow>
        (\<exists>newKey. collaboratorCalls (newEvents s s')
             = [Db_setKey newKey True False False, QuickUnlock_reset (publicUuid (m_db s)),
                Emit_editFinished True]
               @ (if m_isDirty (updateDirty s) then [Db_markAsModified] else [])
           \<and> key (m_db s') = Some newKey))
     \<and> (b \<and> keyUnchanged (updateDirty s) \<longrightarrow> newEvents s s' = [] \<and> m_db s' = m_db s)
     \<and> (\<not> b \<longrightarrow> collaboratorCalls (newEvents s s') = [] \<and> m_db s' = m_db s)"
proof
  assume r: "saveSettings env s = Returned (b, s')"
  note c = saveSettings_cases [OF r]
  have commit: "b \<and> \<not> keyUnchanged (updateDirty s) \<longrightarrow>
        (\<exists>newKey. collaboratorCalls (newEvents s s')
             = [Db_setKey newKey True False False, QuickUnlock_reset (publicUuid (m_db s)),
                Emit_editFinished True]
               @ (if m_isDirty (updateDirty s) then [Db_markAsModified] else [])
           \<and> key (m_db s') = Some newKey)"
  proof
    assume "b \<and> \<not> keyUnchanged (updateDirty s)"
    then obtain newKey s2 where a: "assembleNewKey env (updateDirty s) = Inr (newKey, s2)"
      and k: "commitNewKey newKey s2 = Returned (True, s')"
      using c by blast
    obtain ds where ds: "list_all isDialog ds"
      "newEvents s s' = ds @ [Db_setKey newKey True False False,
             QuickUnlock_reset (publicUuid (m_db s)), Emit_editFinished True]
             @ (if m_isDirty (updateDirty s) then [Db_markAsModified] else [])"
      using saveSettings_commit_trace(1) [OF a k] by blast
    have "collaboratorCalls (newEvents s s')
             = [Db_setKey newKey True False False, QuickUnlock_reset (publicUuid (m_db s)),
                Emit_editFinished True]
               @ (if m_isDirty (updateDirty s) then [Db_markAsModified] else [])"
      unfolding ds(2) collaboratorCalls_dialogs [OF ds(1)]
      by (simp add: collaboratorCalls_def)
    then show "\<exists>newKey. collaboratorCalls (newEvents s s')
             = [Db_setKey newKey True False False, QuickUnlock_reset (publicUuid (m_db s)),
                Emit_editFinished True]
               @ (if m_isDirty (updateDirty s) then [Db_markAsModified] else [])
           \<and> key (m_db s') = Some newKey"
      using saveSettings_commit_trace(2) [OF a k] by blast
  qed
  have short: "b \<and> keyUnchanged (updateDirty s) \<longrightarrow> newEvents s s' = [] \<and> m_db s' = m_db s"
    using c by (auto simp: newEvents_def updateDirty_fields)
  have abort: "\<not> b \<longrightarrow> collaboratorCalls (newEvents s s') = [] \<and> m_db s' = m_db s"
    using c onlyDialogs_updateDirty_calls(1,2) by blast
  show "(b \<and> \<not> keyUnchanged (updateDirty s) \<longrightarrow>
        (\<exists>newKey. collaboratorCalls (newEvents s s')
             = [Db_setKey newKey True False False, QuickUnlock_reset (publicUuid (m_db s)),
                Emit_editFinished True]
               @ (if m_isDirty (updateDirty s) then [Db_markAsModified] else [])
           \<and> key (m_db s') = Some newKey))
     \<and> (b \<and> keyUnchanged (updateDirty s) \<longrightarrow> newEvents s s' = [] \<and> m_db s' = m_db s)
     \<and> (\<not> b \<longrightarrow> collaboratorCalls (newEvents s s') = [] \<and> m_db s' = m_db s)"
    using commit short abort by blast
qed


theorem saveSettings_commit_order_witness:
  "(\<exists>s'. saveSettings (ex_env 0 Cancel Cancel)
           (ex_widget False (ex_password Edit False 4 True) AddNew AddNew
              (Some \<lparr>keys = [1], challengeResponseKeys = []\<rparr>)) = Returned (True, s')
      \<and> \<not> keyUnchanged (updateDirty
           (ex_widget False (ex_password Edit False 4 True) AddNew AddNew
              (Some \<lparr>keys = [1], challengeResponseKeys = []\<rparr>)))
      \<and> collaboratorCalls (newEvents
           (ex_widget False (ex_password Edit False 4 True) AddNew AddNew
              (Some \<lparr>keys = [1], challengeResponseKeys = []\<rparr>)) s')
          = [Db_setKey \<lparr>keys = [10], challengeResponseKeys = []\<rparr> True False False,
             QuickUnlock_reset 99, Emit_editFinished True, Db_markAsModified]
      \<and> key (m_db s') = Some \<lparr>keys = [10], challengeResponseKeys = []\<rparr>)
   \<and> (\<exists>s'. saveSettings (ex_env 0 Cancel Cancel)
           (ex_widget False (ex_password LeaveOrRemove False 4 True) AddNew AddNew
              (Some \<lparr>keys = [1], challengeResponseKeys = []\<rparr>)) = Returned (True, s')
      \<and> keyUnchanged (updateDirty
           (ex_widget False (ex_password LeaveOrRemove False 4 True) AddNew AddNew
              (Some \<lparr>keys = [1], challengeResponseKeys = []\<rparr>)))
      \<and> newEvents
           (ex_widget False (ex_password LeaveOrRemove False 4 True) AddNew AddNew
              (Some \<lparr>keys = [1], challengeResponseKeys = []\<rparr>)) s' = []
      \<and> key (m_db s') = Some \<lparr>keys = [1], challengeResponseKeys = []\<rparr>)
   \<and> (\<exists>s'. saveSettings (ex_env 0 Cancel Cancel)
           (ex_widget False (ex_password Edit True 0 True) AddNew AddNew
              (Some \<lparr>keys = [1], challengeResponseKeys = []\<rparr>)) = Returned (False, s')
      \<and> collaboratorCalls (newEvents
           (ex_widget False (ex_password Edit True 0 True) AddNew AddNew
              (Some \<lparr>keys = [1], challengeResponseKeys = []\<rparr>)) s') = []
      \<and> key (m_db s') = Some \<lparr>keys = [1], challengeResponseKeys = []\<rparr>)"
proof -
  let ?E = "ex_env 0 Cancel Cancel"
  let ?A = "ex_widget False (ex_password Edit False 4 True) AddNew AddNew
              (Some \<lparr>keys = [1], challengeResponseKeys = []\<rparr>)"
  let ?B = "ex_widget False (ex_password LeaveOrRemove False 4 True) AddNew AddNew
              (Some \<lparr>keys = [1], challengeResponseKeys = []\<rparr>)"
  let ?C = "ex_widget False (ex_password Edit True 0 True) AddNew AddNew
              (Some \<lparr>keys = [1], challengeResponseKeys = []\<rparr>)"
  have "\<exists>s'. saveSettings ?E ?A = Returned (True, s')" by (simp add: model_defs)
  then obtain a where a: "saveSettings ?E ?A = Returned (True, a)" by blast
  have ka: "\<not> keyUnchanged (updateDirty ?A)" "m_isDirty (updateDirty ?A)"
    "publicUuid (m_db ?A) = 99"
    by (simp_all add: model_defs)
  have "dbOf (saveSettings ?E ?A)
      = Some \<lparr>key = Some \<lparr>keys = [10], challengeResponseKeys = []\<rparr>, publicUuid = 99,
          modified = True\<rparr>"
    by (simp add: model_defs)
  then have da: "key (m_db a) = Some \<lparr>keys = [10], challengeResponseKeys = []\<rparr>"
    using a by (simp add: dbOf_def)
  have pa: "collaboratorCalls (newEvents ?A a)
          = [Db_setKey \<lparr>keys = [10], challengeResponseKeys = []\<rparr> True False False,
             QuickUnlock_reset 99, Emit_editFinished True, Db_markAsModified]"
    using saveSettings_commit_order [of ?E ?A True a] a ka da by auto
  have "\<exists>s'. saveSettings ?E ?B = Returned (True, s')" by (simp add: model_defs)
  then obtain b where b: "saveSettings ?E ?B = Returned (True, b)" by blast
  have kb: "keyUnchanged (updateDirty ?B)"
    "key (m_db ?B) = Some \<lparr>keys = [1], challengeResponseKeys = []\<rparr>"
    by (simp_all add: model_defs)
  have pb: "newEvents ?B b = [] \<and> m_db b = m_db ?B"
    using saveSettings_commit_order [of ?E ?B True b] b kb by blast
  have "\<exists>s'. saveSettings ?E ?C = Returned (False, s')" by (simp add: model_defs)
  then obtain c where c: "saveSettings ?E ?C = Returned (False, c)" by blast
  have kc: "key (m_db ?C) = Some \<lparr>keys = [1], challengeResponseKeys = []\<rparr>"
    by (simp add: model_defs)
  have pc: "collaboratorCalls (newEvents ?C c) = [] \<and> m_db c = m_db ?C"
    using saveSettings_commit_order [of ?E ?C False c] c by blast
  show ?thesis
    using a ka(1) pa da b kb pb c kc pc by (metis (no_types, lifting))
qed

section \<open>C8: discard\<close>

text \<open>
  Claim C8. \<^verbatim>\<open>discard\<close> clears the added flag of every component and emits
  \<^verbatim>\<open>editFinished(false)\<close>, the only call it makes: the database (and with it the
  current key and the modified mark), the key store and the dirty flag are unchanged, and
  neither \<^verbatim>\<open>setKey\<close>, \<^verbatim>\<open>markAsModified\<close> nor the quick-unlock reset is called.
\<close>

theorem discard_frame:
  "componentAdded (m_passwordEditWidget (discard s)) = False
   \<and> componentAdded (m_keyFileEditWidget (discard s)) = False
   \<and> map_option componentAdded (m_yubiKeyEditWidget (discard s))
       = map_option (\<lambda>y. False) (m_yubiKeyEditWidget s)
   \<and> trace (discard s) = trace s @ [Emit_editFinished False]
   \<and> collaboratorCalls (newEvents s (discard s)) = [Emit_editFinished False]
   \<and> m_db (discard s) = m_db s
   \<and> store (discard s) = store s
   \<and> m_isDirty (discard s) = m_isDirty s"
  by (simp add: discard_def initialize_def logCall_def setComponentAdded_def Let_def
      newEvents_def collaboratorCalls_def option.map_comp comp_def)

section \<open>C9: the dirty flag is never cleared\<close>

text \<open>
  Claim C9. No operation of the class clears \<open>m_isDirty\<close>: once set it stays set along
  any sequence of operations that returns, \<^verbatim>\<open>markDirty\<close> sets it, a save that finds a
  component on the \<open>Edit\<close> page and returns leaves it set, and a commit,
  \<^verbatim>\<open>initialize\<close> and \<^verbatim>\<open>discard\<close> keep its value. So after a click on a remove button
  or a save with a component on \<open>Edit\<close>, every later save of the session skips the "Key
  unchanged" return; when it returns true it has installed a key and marked the database
  modified.
\<close>

theorem dirty_flag_never_cleared:
  "(m_isDirty s \<and> run xs s = Returned s' \<longrightarrow> m_isDirty s')
   \<and> m_isDirty (markDirty s)
   \<and> (anyEdit s \<and> saveSettings env s = Returned (b, s1) \<longrightarrow> m_isDirty s1)
   \<and> (saveSettings env s = Returned (b, s1) \<longrightarrow> (m_isDirty s \<longrightarrow> m_isDirty s1))
   \<and> m_isDirty (discard s) = m_isDirty s
   \<and> m_isDirty (initialize s) = m_isDirty s
   \<and> ((x = Op_markDirty \<or> x = Op_saveSettings env \<and> anyEdit s)
        \<and> run (x # xs) s = Returned s' \<longrightarrow>
        m_isDirty s' \<and> \<not> keyUnchanged (updateDirty s')
        \<and> (saveSettings env' s' = Returned (True, s'') \<longrightarrow>
             (\<exists>k. collaboratorCalls (newEvents s' s'')
                = [Db_setKey k True False False, QuickUnlock_reset (publicUuid (m_db s')),
                   Emit_editFinished True, Db_markAsModified])))"
proof -
  have session: "m_isDirty s \<and> run xs s = Returned s' \<longrightarrow> m_isDirty s'"
    using run_dirty by blast
  have mark: "m_isDirty (markDirty s)" by (simp add: markDirty_def)
  have edit: "anyEdit s \<and> saveSettings env s = Returned (b, s1) \<longrightarrow> m_isDirty s1"
    using saveSettings_dirty [of env s b s1] updateDirty_dirty [of s]
    by (auto simp: anyEdit_def)
  have keep: "saveSettings env s = Returned (b, s1) \<longrightarrow> (m_isDirty s \<longrightarrow> m_isDirty s1)"
    using saveSettings_dirty [of env s b s1] updateDirty_dirty [of s] by auto
  have disc: "m_isDirty (discard s) = m_isDirty s"
    by (simp add: discard_def logCall_def initialize_fields)
  have init: "m_isDirty (initialize s) = m_isDirty s" by (simp add: initialize_fields)
  have later: "(x = Op_markDirty \<or> x = Op_saveSettings env \<and> anyEdit s)
        \<and> run (x # xs) s = Returned s' \<longrightarrow>
        m_isDirty s' \<and> \<not> keyUnchanged (updateDirty s')
        \<and> (saveSettings env' s' = Returned (True, s'') \<longrightarrow>
             (\<exists>k. collaboratorCalls (newEvents s' s'')
                = [Db_setKey k True False False, QuickUnlock_reset (publicUuid (m_db s')),
                   Emit_editFinished True, Db_markAsModified]))"
  proof
    assume h: "(x = Op_markDirty \<or> x = Op_saveSettings env \<and> anyEdit s)
        \<and> run (x # xs) s = Returned s'"
    then obtain t where t: "step x s = Returned t" "run xs t = Returned s'"
      by (auto split: outcome.splits)
    have "m_isDirty t"
    proof (cases "x = Op_markDirty")
      case True
      then show ?thesis using t(1) by (auto simp: markDirty_def)
    next
      case False
      then have x: "x = Op_saveSettings env" "anyEdit s" using h by simp_all
      then obtain c where "saveSettings env s = Returned (c, t)"
        using t(1) by (auto split: outcome.splits)
      then show ?thesis
        using saveSettings_dirty [of env s c t] updateDirty_dirty [of s] x(2)
        by (auto simp: anyEdit_def)
    qed
    then have d: "m_isDirty s'" using run_dirty t(2) by blast
    then have n: "\<not> keyUnchanged (updateDirty s')" by (rule dirty_not_keyUnchanged)
    have d': "m_isDirty (updateDirty s')" using d by (simp add: updateDirty_dirty)
    have "saveSettings env' s' = Returned (True, s'') \<longrightarrow>
             (\<exists>k. collaboratorCalls (newEvents s' s'')
                = [Db_setKey k True False False, QuickUnlock_reset (publicUuid (m_db s')),
                   Emit_editFinished True, Db_markAsModified])"
    proof
      assume r: "saveSettings env' s' = Returned (True, s'')"
      from saveSettings_cases [OF r] n
      obtain newKey s2 where a: "assembleNewKey env' (updateDirty s') = Inr (newKey, s2)"
        and c: "commitNewKey newKey s2 = Returned (True, s'')"
        by blast
      obtain ds where ds: "list_all isDialog ds"
        "newEvents s' s'' = ds @ [Db_setKey newKey True False False,
             QuickUnlock_reset (publicUuid (m_db s')), Emit_editFinished True]
             @ (if m_isDirty (updateDirty s') then [Db_markAsModified] else [])"
        using saveSettings_commit_trace(1) [OF a c] by blast
      have "collaboratorCalls (newEvents s' s'')
                = [Db_setKey newKey True False False, QuickUnlock_reset (publicUuid (m_db s')),
                   Emit_editFinished True, Db_markAsModified]"
        unfolding ds(2) collaboratorCalls_dialogs [OF ds(1)]
        using d' by (simp add: collaboratorCalls_def)
      then show "\<exists>k. collaboratorCalls (newEvents s' s'')
                = [Db_setKey k True False False, QuickUnlock_reset (publicUuid (m_db s')),
                   Emit_editFinished True, Db_markAsModified]"
        by blast
    qed
    then show "m_isDirty s' \<and> \<not> keyUnchanged (updateDirty s')
        \<and> (saveSettings env' s' = Returned (True, s'') \<longrightarrow>
             (\<exists>k. collaboratorCalls (newEvents s' s'')
                = [Db_setKey k True False False, QuickUnlock_reset (publicUuid (m_db s')),
                   Emit_editFinished True, Db_markAsModified]))"
      using d n by blast
  qed
  show ?thesis using session mark edit keep disc init later by blast
qed


theorem dirty_flag_never_cleared_witness:
  "m_isDirty (markDirty (ex_widget False (ex_password LeaveOrRemove False 4 True) LeaveOrRemove
       AddNew (Some \<lparr>keys = [1, 2], challengeResponseKeys = []\<rparr>)))
   \<and> run [Op_markDirty, Op_discard]
        (ex_widget False (ex_password LeaveOrRemove False 4 True) LeaveOrRemove
           AddNew (Some \<lparr>keys = [1, 2], challengeResponseKeys = []\<rparr>))
       = Returned (discard (markDirty
           (ex_widget False (ex_password LeaveOrRemove False 4 True) LeaveOrRemove
              AddNew (Some \<lparr>keys = [1, 2], challengeResponseKeys = []\<rparr>))))
   \<and> run [Op_discard, Op_initialize, Op_uninitialize, Op_showAdditionalKeyOptions]
        (markDirty (ex_widget False (ex_password LeaveOrRemove False 4 True) LeaveOrRemove
           AddNew (Some \<lparr>keys = [1, 2], challengeResponseKeys = []\<rparr>)))
       = Returned (showAdditionalKeyOptions (uninitialize (initialize (discard (markDirty
           (ex_widget False (ex_password LeaveOrRemove False 4 True) LeaveOrRemove
              AddNew (Some \<lparr>keys = [1, 2], challengeResponseKeys = []\<rparr>)))))))
   \<and> m_isDirty (showAdditionalKeyOptions (uninitialize (initialize (discard (markDirty
           (ex_widget False (ex_password LeaveOrRemove False 4 True) LeaveOrRemove
              AddNew (Some \<lparr>keys = [1, 2], challengeResponseKeys = []\<rparr>)))))))
   \<and> m_isDirty (discard (markDirty
           (ex_widget False (ex_password LeaveOrRemove False 4 True) LeaveOrRemove
              AddNew (Some \<lparr>keys = [1, 2], challengeResponseKeys = []\<rparr>))))
   \<and> \<not> keyUnchanged (updateDirty (discard (markDirty
           (ex_widget False (ex_password LeaveOrRemove False 4 True) LeaveOrRemove
              AddNew (Some \<lparr>keys = [1, 2], challengeResponseKeys = []\<rparr>)))))
   \<and> keyUnchanged (updateDirty (discard
           (ex_widget False (ex_password LeaveOrRemove False 4 True) LeaveOrRemove
              AddNew (Some \<lparr>keys = [1, 2], challengeResponseKeys = []\<rparr>))))
   \<and> (\<exists>s''. saveSettings (ex_env 0 Cancel Cancel) (discard (markDirty
           (ex_widget False (ex_password LeaveOrRemove False 4 True) LeaveOrRemove
              AddNew (Some \<lparr>keys = [1, 2], challengeResponseKeys = []\<rparr>))))
         = Returned (True, s'')
       \<and> (\<exists>k. collaboratorCalls (newEvents (discard (markDirty
           (ex_widget False (ex_password LeaveOrRemove False 4 True) LeaveOrRemove
              AddNew (Some \<lparr>keys = [1, 2], challengeResponseKeys = []\<rparr>)))) s'')
            = [Db_setKey k True False False, QuickUnlock_reset 99, Emit_editFinished True,
               Db_markAsModified]))
   \<and> anyEdit (ex_widget False (ex_password Edit False 4 True) AddNew AddNew
        (Some \<lparr>keys = [1], challengeResponseKeys = []\<rparr>))
   \<and> (\<exists>s1. saveSettings (ex_env 0 Cancel Cancel)
          (ex_widget False (ex_password Edit False 4 True) AddNew AddNew
             (Some \<lparr>keys = [1], challengeResponseKeys = []\<rparr>)) = Returned (True, s1)
        \<and> m_isDirty s1)"
proof -
  let ?S = "ex_widget False (ex_password LeaveOrRemove False 4 True) LeaveOrRemove
       AddNew (Some \<lparr>keys = [1, 2], challengeResponseKeys = []\<rparr>)"
  let ?A = "ex_widget False (ex_password Edit False 4 True) AddNew AddNew
        (Some \<lparr>keys = [1], challengeResponseKeys = []\<rparr>)"
  let ?E = "ex_env 0 Cancel Cancel"
  have r: "run [Op_markDirty, Op_discard] ?S = Returned (discard (markDirty ?S))" by simp
  have u: "publicUuid (m_db (discard (markDirty ?S))) = 99"
    by (simp add: discard_def markDirty_def model_defs)
  have c: "keyUnchanged (updateDirty (discard ?S))"
    by (simp add: discard_def model_defs)
  have "\<exists>s''. saveSettings ?E (discard (markDirty ?S)) = Returned (True, s'')"
    by (simp add: discard_def markDirty_def model_defs)
  then obtain t where t: "saveSettings ?E (discard (markDirty ?S)) = Returned (True, t)"
    by blast
  note th = dirty_flag_never_cleared
      [where s = ?S and x = Op_markDirty and xs = "[Op_discard]"
         and s' = "discard (markDirty ?S)" and env' = ?E and s'' = t]
  have p1: "m_isDirty (markDirty ?S)" using th by blast
  have r0: "run [Op_discard, Op_initialize, Op_uninitialize, Op_showAdditionalKeyOptions]
        (markDirty ?S)
      = Returned (showAdditionalKeyOptions (uninitialize (initialize (discard (markDirty ?S)))))"
    by simp
  have p0: "m_isDirty (showAdditionalKeyOptions (uninitialize (initialize (discard
      (markDirty ?S)))))"
    using p1 r0 dirty_flag_never_cleared
      [where s = "markDirty ?S"
         and xs = "[Op_discard, Op_initialize, Op_uninitialize, Op_showAdditionalKeyOptions]"
         and s' = "showAdditionalKeyOptions (uninitialize (initialize (discard
           (markDirty ?S))))"]
    by blast
  have p2: "m_isDirty (discard (markDirty ?S))
      \<and> \<not> keyUnchanged (updateDirty (discard (markDirty ?S)))
      \<and> (\<exists>k. collaboratorCalls (newEvents (discard (markDirty ?S)) t)
            = [Db_setKey k True False False, QuickUnlock_reset 99, Emit_editFinished True,
               Db_markAsModified])"
    using th r t u by auto
  have e: "anyEdit ?A" by (simp add: anyEdit_def model_defs)
  have "\<exists>s1. saveSettings ?E ?A = Returned (True, s1)" by (simp add: model_defs)
  then obtain a where a: "saveSettings ?E ?A = Returned (True, a)" by blast
  have p3: "m_isDirty a"
    using dirty_flag_never_cleared [where s = ?A and env = ?E and b = True and ?s1.0 = a] e a
    by blast
  show ?thesis using p1 r r0 p0 p2 c t e a p3 by blast
qed

section \<open>C10: saveSettings needs a composite-key object\<close>

text \<open>
  Claim C10. \<^verbatim>\<open>saveSettings\<close> stops on a null pointer exactly when the database holds no
  composite-key object: the "Key unchanged" return needs a key, and the snapshot loops
  of lines 148 and 156 dereference \<^verbatim>\<open>m_db->key()\<close> without a test. \<^verbatim>\<open>loadSettings\<close>
  accepts a database without a key (it shows the password page \<open>Edit\<close>), and the save
  that follows stops there.
\<close>

theorem saveSettings_needs_key:
  "(saveSettings env s = NullDeref \<longleftrightarrow> key (m_db s) = None)
   \<and> (key db = None \<longrightarrow>
        visiblePage (m_passwordEditWidget (loadSettings db s)) = Edit
        \<and> saveSettings env (loadSettings db s) = NullDeref)"
proof -
  have a: "saveSettings env s = NullDeref \<longleftrightarrow> key (m_db s) = None" for env s
  proof
    assume n: "saveSettings env s = NullDeref"
    show "key (m_db s) = None"
    proof (rule ccontr)
      assume "key (m_db s) \<noteq> None"
      then have "assembleNewKey env (updateDirty s) \<noteq> Inl NullDeref"
        by (simp add: assembleNewKey_NullDeref updateDirty_fields)
      with n show False
        unfolding saveSettings_def
        by (auto simp: Let_def commitNewKey_no_NullDeref split: if_splits sum.splits prod.splits)
    qed
  next
    assume "key (m_db s) = None"
    then have "assembleNewKey env (updateDirty s) = Inl NullDeref"
      and "\<not> keyUnchanged (updateDirty s)"
      by (simp_all add: assembleNewKey_NullDeref updateDirty_fields keyUnchanged_def)
    then show "saveSettings env s = NullDeref"
      unfolding saveSettings_def by (simp add: Let_def)
  qed
  have b: "key db = None \<Longrightarrow> key (m_db (loadSettings db s)) = None
      \<and> visiblePage (m_passwordEditWidget (loadSettings db s)) = Edit"
    unfolding loadSettings_def base_loadSettings_def changeVisiblePage_def
    by (simp add: Let_def)
  show ?thesis using a b by blast
qed

theorem saveSettings_needs_key_witness:
  "key \<lparr>key = None, publicUuid = 99, modified = False\<rparr> = None
   \<and> visiblePage (m_passwordEditWidget
        (loadSettings \<lparr>key = None, publicUuid = 99, modified = False\<rparr>
           (ex_widget False (ex_password AddNew True 0 True) AddNew AddNew None))) = Edit
   \<and> saveSettings (ex_env 0 Cancel Cancel)
        (loadSettings \<lparr>key = None, publicUuid = 99, modified = False\<rparr>
           (ex_widget False (ex_password AddNew True 0 True) AddNew AddNew None)) = NullDeref"
  using saveSettings_needs_key
    [where db = "\<lparr>key = None, publicUuid = 99, modified = False\<rparr>"
       and s = "ex_widget False (ex_password AddNew True 0 True) AddNew AddNew None"
       and env = "ex_env 0 Cancel Cancel"]
  by simp

end
